theory Spec2Isabelle
  imports Main
begin

section \<open>Settings\<close>

text \<open>
  The repository holds four snapshots of one plugin. Two of them are embedded here:
  the first snapshot of \<^verbatim>\<open>src/main.ts\<close> (release 1.1.0: per-platform enablement, the
  split written inside the \<^verbatim>\<open>file-open\<close> handler) and the last snapshot of
  \<^verbatim>\<open>src/unnamed/part_000\<close> (release 1.2: the \<^verbatim>\<open>autoSplit\<close> setting, the method
  \<^verbatim>\<open>splitActiveFile\<close> and the command "Split and link current pane"). Definitions of
  the 1.2 snapshot whose name also exists in 1.1.0 carry the suffix \<open>12\<close>. The other two
  snapshots lie between them: the first one in \<^verbatim>\<open>part_000\<close> is the handler of 1.1.0
  without the platform check, the second one in \<^verbatim>\<open>main.ts\<close> is the handler of 1.1.0 with
  the tests for a markdown view and for exactly one markdown leaf that 1.2 has.

  \<^verbatim>\<open>type SplitDirectionSetting = "vertical" | "horizontal" | "auto"\<close> and
  \<^verbatim>\<open>type PaneTypeSetting = "source" | "preview"\<close> are unions of string literals.
\<close>

datatype SplitDirectionSetting = Vertical | Horizontal | Auto

datatype PaneTypeSetting = Source | Preview

text \<open>
  The five fields both snapshots share, then the field each snapshot adds. The object under
  \<^verbatim>\<open>enabledOn\<close> is built by a shallow \<^verbatim>\<open>Object.assign\<close>, so at run time either of its
  two properties can be absent (\<open>None\<close> is JavaScript's \<^verbatim>\<open>undefined\<close>).
\<close>

record SplitSettings =
  minSize :: int
  direction :: SplitDirectionSetting
  editorFirst :: bool
  paneToFocus :: PaneTypeSetting
  linkPanes :: bool

record EnabledOn =
  desktop :: "bool option"
  mobile :: "bool option"

record AutoSplitSettings = SplitSettings +
  enabledOn :: EnabledOn

record AutoSplitSettings12 = SplitSettings +
  autoSplit :: bool

definition DEFAULT_SETTINGS :: AutoSplitSettings where
  "DEFAULT_SETTINGS =
     \<lparr>minSize = 1000, direction = Auto, editorFirst = True, paneToFocus = Source,
      linkPanes = True, enabledOn = \<lparr>desktop = Some True, mobile = Some True\<rparr>\<rparr>"

definition DEFAULT_SETTINGS12 :: AutoSplitSettings12 where
  "DEFAULT_SETTINGS12 =
     \<lparr>minSize = 1000, direction = Auto, editorFirst = True, paneToFocus = Source,
      linkPanes = True, autoSplit = True\<rparr>"

text \<open>
  The persisted blob (\<^verbatim>\<open>data.json\<close>, read by \<^verbatim>\<open>loadData\<close>, written by
  \<^verbatim>\<open>saveData\<close>): a JSON object in which every property may be missing. A property this
  record does not list is not modelled.
\<close>

record SettingsData =
  data_enabledOn :: "EnabledOn option"
  data_autoSplit :: "bool option"
  data_minSize :: "int option"
  data_direction :: "SplitDirectionSetting option"
  data_editorFirst :: "bool option"
  data_paneToFocus :: "PaneTypeSetting option"
  data_linkPanes :: "bool option"

text \<open>
  \<^verbatim>\<open>Object.assign({}, DEFAULT_SETTINGS, await this.loadData())\<close>: every own property
  of the blob overwrites the default of the same name, one level deep; \<^verbatim>\<open>loadData\<close>
  gives \<^verbatim>\<open>null\<close> when nothing was saved, which \<^verbatim>\<open>Object.assign\<close> skips.
\<close>

definition orDefault :: "'a option \<Rightarrow> 'a \<Rightarrow> 'a" where
  "orDefault v d = (case v of Some x \<Rightarrow> x | None \<Rightarrow> d)"

definition loadSettings :: "SettingsData option \<Rightarrow> AutoSplitSettings" where
  "loadSettings loaded =
     (case loaded of
        None \<Rightarrow> DEFAULT_SETTINGS
      | Some d \<Rightarrow>
          \<lparr>minSize = orDefault (data_minSize d) (minSize DEFAULT_SETTINGS),
           direction = orDefault (data_direction d) (direction DEFAULT_SETTINGS),
           editorFirst = orDefault (data_editorFirst d) (editorFirst DEFAULT_SETTINGS),
           paneToFocus = orDefault (data_paneToFocus d) (paneToFocus DEFAULT_SETTINGS),
           linkPanes = orDefault (data_linkPanes d) (linkPanes DEFAULT_SETTINGS),
           enabledOn = orDefault (data_enabledOn d) (enabledOn DEFAULT_SETTINGS)\<rparr>)"

definition loadSettings12 :: "SettingsData option \<Rightarrow> AutoSplitSettings12" where
  "loadSettings12 loaded =
     (case loaded of
        None \<Rightarrow> DEFAULT_SETTINGS12
      | Some d \<Rightarrow>
          \<lparr>minSize = orDefault (data_minSize d) (minSize DEFAULT_SETTINGS12),
           direction = orDefault (data_direction d) (direction DEFAULT_SETTINGS12),
           editorFirst = orDefault (data_editorFirst d) (editorFirst DEFAULT_SETTINGS12),
           paneToFocus = orDefault (data_paneToFocus d) (paneToFocus DEFAULT_SETTINGS12),
           linkPanes = orDefault (data_linkPanes d) (linkPanes DEFAULT_SETTINGS12),
           autoSplit = orDefault (data_autoSplit d) (autoSplit DEFAULT_SETTINGS12)\<rparr>)"

text \<open>
  \<^verbatim>\<open>this.saveData(this.settings)\<close> writes the record as JSON: every property the record
  has is written, and a property that is \<^verbatim>\<open>undefined\<close> is left out.
\<close>

definition saveSettings :: "AutoSplitSettings \<Rightarrow> SettingsData" where
  "saveSettings s =
     \<lparr>data_enabledOn = Some (enabledOn s), data_autoSplit = None,
      data_minSize = Some (minSize s), data_direction = Some (direction s),
      data_editorFirst = Some (editorFirst s), data_paneToFocus = Some (paneToFocus s),
      data_linkPanes = Some (linkPanes s)\<rparr>"

definition saveSettings12 :: "AutoSplitSettings12 \<Rightarrow> SettingsData" where
  "saveSettings12 s =
     \<lparr>data_enabledOn = None, data_autoSplit = Some (autoSplit s),
      data_minSize = Some (minSize s), data_direction = Some (direction s),
      data_editorFirst = Some (editorFirst s), data_paneToFocus = Some (paneToFocus s),
      data_linkPanes = Some (linkPanes s)\<rparr>"

section \<open>The host workspace\<close>

text \<open>
  The plugin drives the workspace of the host application (Obsidian) through its API. The
  host is not part of the repository; its state is modelled as far as the plugin reads or
  writes it. Leaves are objects with identity: a leaf is an address (\<open>nat\<close>), \<open>leafData\<close> is
  the store, and \<open>layout\<close> lists the leaves that are part of the workspace in their order on
  screen (leading pane first).
\<close>

record Platform =
  isDesktop :: bool
  isMobile :: bool
  isPhone :: bool

text \<open>
  A view state as \<^verbatim>\<open>getViewState\<close> returns it: \<^verbatim>\<open>type\<close>, \<^verbatim>\<open>state.mode\<close> and
  \<^verbatim>\<open>active\<close>. The mode is untyped in the host's API; \<open>None\<close> stands for every value
  that is neither \<^verbatim>\<open>"source"\<close> nor \<^verbatim>\<open>"preview"\<close> (a view without a mode).
\<close>

record ViewState =
  viewType :: string
  mode :: "PaneTypeSetting option"
  active :: bool

record LeafData =
  viewState :: ViewState
  leafFile :: "string option"
  splitDirection :: "SplitDirectionSetting option"

record Size =
  width :: int
  height :: int

record Workspace =
  layout :: "nat list"
  leafData :: "nat \<Rightarrow> LeafData"
  activeLeaf :: "nat option"
  focusedLeaf :: "nat option"
  groups :: "(nat \<times> nat) list"
  rootContainer :: "Size option"
  window :: Size
  activeEditorFile :: "string option"
  leavesQueryThrows :: bool

datatype HostError = QueryFailed

text \<open>
  \<^verbatim>\<open>getLeavesOfType(type)\<close>: the leaves of the layout whose view has that type
  (\<open>leavesOfType\<close>). The source wraps one call of it in \<^verbatim>\<open>try\<close>/\<^verbatim>\<open>catch\<close>, so the
  call can throw; whether it does is a property of the host's state.
\<close>

definition leavesOfType :: "Workspace \<Rightarrow> string \<Rightarrow> nat list" where
  "leavesOfType ws t = filter (\<lambda>l. viewType (viewState (leafData ws l)) = t) (layout ws)"

definition getLeavesOfType :: "Workspace \<Rightarrow> string \<Rightarrow> HostError + nat list" where
  "getLeavesOfType ws t =
     (if leavesQueryThrows ws then Inl QueryFailed else Inr (leavesOfType ws t))"

text \<open>\<^verbatim>\<open>leaf.getViewState()\<close> returns a fresh snapshot on every call.\<close>

definition getViewState :: "Workspace \<Rightarrow> nat \<Rightarrow> ViewState" where
  "getViewState ws l = viewState (leafData ws l)"

text \<open>
  \<^verbatim>\<open>getActiveViewOfType(MarkdownView)?.leaf\<close>: the active leaf when its view is a
  markdown view, that is a view of type \<^verbatim>\<open>"markdown"\<close>.
\<close>

definition getActiveViewOfType_MarkdownView :: "Workspace \<Rightarrow> nat option" where
  "getActiveViewOfType_MarkdownView ws =
     (case activeLeaf ws of
        None \<Rightarrow> None
      | Some l \<Rightarrow> if viewType (getViewState ws l) = ''markdown'' then Some l else None)"

text \<open>
  \<^verbatim>\<open>createLeafBySplit(leaf, direction, before)\<close> makes a new, empty leaf beside
  \<open>leaf\<close>: immediately before it when \<^verbatim>\<open>before\<close> holds, immediately after it otherwise.
\<close>

fun insertBeside :: "nat \<Rightarrow> bool \<Rightarrow> nat \<Rightarrow> nat list \<Rightarrow> nat list" where
  "insertBeside l placeBefore n [] = [n]"
| "insertBeside l placeBefore n (x # xs) =
     (if x = l then (if placeBefore then n # x # xs else x # n # xs)
      else x # insertBeside l placeBefore n xs)"

definition newLeafId :: "Workspace \<Rightarrow> nat" where
  "newLeafId ws = Suc (foldr max (layout ws) 0)"

definition emptyLeaf :: "SplitDirectionSetting \<Rightarrow> LeafData" where
  "emptyLeaf d =
     \<lparr>viewState = \<lparr>viewType = ''empty'', mode = None, active = False\<rparr>,
      leafFile = None, splitDirection = Some d\<rparr>"

definition createLeafBySplit ::
  "nat \<Rightarrow> SplitDirectionSetting \<Rightarrow> bool \<Rightarrow> Workspace \<Rightarrow> nat \<times> Workspace" where
  "createLeafBySplit l d placeBefore ws =
     (let n = newLeafId ws
      in (n, ws\<lparr>layout := insertBeside l placeBefore n (layout ws),
                 leafData := (leafData ws)(n := emptyLeaf d)\<rparr>))"

text \<open>
  \<^verbatim>\<open>leaf.openFile(file, viewState)\<close> shows the file in the leaf, in that view state. A
  view state whose \<^verbatim>\<open>active\<close> property is set asks the host to make the leaf the active
  one; release 1.2 clears the property before the call, release 1.1.0 passes on what the
  snapshot holds.
\<close>

definition openFile :: "nat \<Rightarrow> string \<Rightarrow> ViewState \<Rightarrow> Workspace \<Rightarrow> Workspace" where
  "openFile l f vs ws =
     ws\<lparr>leafData := (leafData ws)(l := (leafData ws l)\<lparr>viewState := vs, leafFile := Some f\<rparr>),
        activeLeaf := (if active vs then Some l else activeLeaf ws),
        focusedLeaf := (if active vs then Some l else focusedLeaf ws)\<rparr>"

text \<open>\<^verbatim>\<open>leaf.setGroupMember(other)\<close> registers the two leaves as one linked group.\<close>

definition setGroupMember :: "nat \<Rightarrow> nat \<Rightarrow> Workspace \<Rightarrow> Workspace" where
  "setGroupMember l other ws = ws\<lparr>groups := groups ws @ [(l, other)]\<rparr>"

text \<open>
  \<^verbatim>\<open>setActiveLeaf(leaf, true, true)\<close> and \<^verbatim>\<open>setActiveLeaf(leaf, { focus: true })\<close>
  make the leaf the active one and give it the focus.
\<close>

definition setActiveLeaf :: "nat \<Rightarrow> bool \<Rightarrow> Workspace \<Rightarrow> Workspace" where
  "setActiveLeaf l focus ws =
     ws\<lparr>activeLeaf := Some l, focusedLeaf := (if focus then Some l else focusedLeaf ws)\<rparr>"

text \<open>
  \<^verbatim>\<open>getRootContainerSize\<close>: the client size of the main area's container, or the
  window's inner size when the container is missing.
\<close>

definition getRootContainerSize :: "Workspace \<Rightarrow> Size" where
  "getRootContainerSize ws =
     (case rootContainer ws of
        Some rootContainerEl \<Rightarrow> \<lparr>width = width rootContainerEl, height = height rootContainerEl\<rparr>
      | None \<Rightarrow> \<lparr>width = width (window ws), height = height (window ws)\<rparr>)"

section \<open>The plugin\<close>

text \<open>
  The plugin object: its settings and the flag \<^verbatim>\<open>hasOpenFiles\<close>. Release 1.1.0 declares
  the flag without a value (\<^verbatim>\<open>undefined\<close>, read only through \<^verbatim>\<open>!\<close>), release 1.2
  starts it at \<^verbatim>\<open>false\<close>: both are \<open>False\<close> here.
\<close>

record 's AutoSplitPlugin =
  settings :: 's
  hasOpenFiles :: bool

text \<open>
  \<^verbatim>\<open>updateHasOpenFiles\<close> (the same text in both snapshots): the assignment happens only
  when the query returns; the \<^verbatim>\<open>catch\<close> block is empty.
\<close>

definition updateHasOpenFiles :: "Workspace \<Rightarrow> 's AutoSplitPlugin \<Rightarrow> 's AutoSplitPlugin" where
  "updateHasOpenFiles ws p =
     (case getLeavesOfType ws ''markdown'' of
        Inr ls \<Rightarrow> p\<lparr>hasOpenFiles := (length ls > 0)\<rparr>
      | Inl e \<Rightarrow> p)"

text \<open>
  The getter \<^verbatim>\<open>isEnabledOnPlatform\<close> of release 1.1.0. Its value is only used as a
  condition, where an absent property counts as false.
\<close>

definition isEnabledOnPlatform :: "Platform \<Rightarrow> AutoSplitSettings \<Rightarrow> bool" where
  "isEnabledOnPlatform plat s =
     (if isDesktop plat then desktop (enabledOn s) = Some True
      else if isMobile plat then mobile (enabledOn s) = Some True
      else True)"

text \<open>
  Three expressions that both snapshots write inline, with the same text:
  the resolved \<^verbatim>\<open>direction\<close>, the side of the main area that is compared with
  \<^verbatim>\<open>minSize\<close>, and the mode of the new pane
  (\<^verbatim>\<open>viewState.state.mode === "preview" ? "source" : "preview"\<close>).
\<close>

definition resolveDirection :: "'a SplitSettings_scheme \<Rightarrow> Size \<Rightarrow> SplitDirectionSetting" where
  "resolveDirection s rootSize =
     (if direction s = Auto
      then (if width rootSize \<ge> height rootSize then Vertical else Horizontal)
      else direction s)"

definition comparedSize :: "SplitDirectionSetting \<Rightarrow> Size \<Rightarrow> int" where
  "comparedSize d rootSize = (if d = Vertical then width rootSize else height rootSize)"

definition toggleMode :: "PaneTypeSetting option \<Rightarrow> PaneTypeSetting" where
  "toggleMode m = (if m = Some Preview then Source else Preview)"

text \<open>
  The \<^verbatim>\<open>file-open\<close> handler of release 1.1.0 (\<^verbatim>\<open>src/main.ts\<close>, lines 60 to 133). Lines
  67 to 79 build an object \<^verbatim>\<open>newState\<close> from a first view-state snapshot; nothing reads
  it afterwards, so it has no counterpart here.
\<close>

definition fileOpen ::
  "Platform \<Rightarrow> string option \<Rightarrow> AutoSplitSettings AutoSplitPlugin \<times> Workspace
     \<Rightarrow> AutoSplitSettings AutoSplitPlugin \<times> Workspace" where
  "fileOpen plat fileArg = (\<lambda>(p, ws).
     let ws' =
       (if isEnabledOnPlatform plat (settings p) \<and> activeLeaf ws \<noteq> None
           \<and> \<not> hasOpenFiles p \<and> fileArg \<noteq> None
        then
          (let rootSize = getRootContainerSize ws;
               dir = resolveDirection (settings p) rootSize
           in if comparedSize dir rootSize > minSize (settings p)
              then
                (let currentLeaf = the (activeLeaf ws);
                     vs0 = getViewState ws currentLeaf;
                     vs = vs0\<lparr>mode := Some (toggleMode (mode vs0))\<rparr>;
                     firstPane = (if editorFirst (settings p) then Source else Preview);
                     (newLeaf, ws1) =
                        createLeafBySplit currentLeaf dir (mode vs = Some firstPane) ws;
                     ws2 = openFile newLeaf (the fileArg) vs ws1;
                     ws3 = (if linkPanes (settings p)
                            then setGroupMember currentLeaf newLeaf ws2 else ws2)
                 in if mode vs = Some (paneToFocus (settings p))
                    then setActiveLeaf newLeaf True ws3 else ws3)
              else ws)
        else ws)
     in (updateHasOpenFiles ws' p, ws'))"

text \<open>
  \<^verbatim>\<open>splitActiveFile(file, autoSplit = false)\<close> of release 1.2
  (\<^verbatim>\<open>src/unnamed/part_000\<close>, lines 378 to 418).
\<close>

definition splitActiveFile ::
  "AutoSplitSettings12 AutoSplitPlugin \<Rightarrow> string \<Rightarrow> bool \<Rightarrow> Workspace \<Rightarrow> Workspace" where
  "splitActiveFile p f autoSplitArg ws =
     (case getActiveViewOfType_MarkdownView ws of
        None \<Rightarrow> ws
      | Some leaf \<Rightarrow>
          (let rootSize = getRootContainerSize ws;
               dir = resolveDirection (settings p) rootSize
           in if comparedSize dir rootSize > minSize (settings p)
              then
                (let vs0 = getViewState ws leaf
                 in if viewType vs0 \<noteq> ''markdown'' then ws
                    else
                      (let vs = vs0\<lparr>active := False, mode := Some (toggleMode (mode vs0))\<rparr>;
                           firstPane = (if editorFirst (settings p) then Source else Preview);
                           (newLeaf, ws1) =
                              createLeafBySplit leaf dir
                                (autoSplitArg \<and> mode vs = Some firstPane) ws;
                           ws2 = openFile newLeaf f vs ws1;
                           ws3 = (if \<not> autoSplitArg \<or> linkPanes (settings p)
                                  then setGroupMember leaf newLeaf ws2 else ws2)
                       in if autoSplitArg \<and> mode vs = Some (paneToFocus (settings p))
                          then setActiveLeaf newLeaf True ws3 else ws3))
              else ws))"

text \<open>
  The \<^verbatim>\<open>file-open\<close> handler of release 1.2 (lines 353 to 365). The query in its condition
  is outside every \<^verbatim>\<open>try\<close>: when it throws, the handler ends there (\<open>Inl\<close>), before the
  flag is refreshed, and nothing has changed.
\<close>

definition fileOpen12 ::
  "Platform \<Rightarrow> string option \<Rightarrow> AutoSplitSettings12 AutoSplitPlugin \<times> Workspace
     \<Rightarrow> HostError + AutoSplitSettings12 AutoSplitPlugin \<times> Workspace" where
  "fileOpen12 plat fileArg = (\<lambda>(p, ws).
     if autoSplit (settings p) \<and> \<not> isPhone plat
     then
       (case getLeavesOfType ws ''markdown'' of
          Inl e \<Rightarrow> Inl e
        | Inr ls \<Rightarrow>
            (let ws' = (if length ls = 1 \<and> \<not> hasOpenFiles p \<and> fileArg \<noteq> None
                        then splitActiveFile p (the fileArg) True ws else ws)
             in Inr (updateHasOpenFiles ws' p, ws')))
     else Inr (updateHasOpenFiles ws p, ws))"

text \<open>
  The \<^verbatim>\<open>checkCallback\<close> of the command "Split and link current pane" (lines 340 to
  346): the result says whether the command is available; with \<open>checking\<close> false the
  command runs.
\<close>

definition checkCallback ::
  "Platform \<Rightarrow> AutoSplitSettings12 AutoSplitPlugin \<Rightarrow> bool \<Rightarrow> Workspace \<Rightarrow> bool \<times> Workspace" where
  "checkCallback plat p checking ws =
     (if isPhone plat then (False, ws)
      else
        (case activeEditorFile ws of
           None \<Rightarrow> (False, ws)
         | Some f \<Rightarrow> (True, if \<not> checking then splitActiveFile p f False ws else ws)))"

text \<open>
  \<^verbatim>\<open>onload\<close>: the settings are loaded, and once the layout is ready the flag is set for
  the first time, before the handler is registered.
\<close>

definition onload :: "SettingsData option \<Rightarrow> AutoSplitSettings AutoSplitPlugin" where
  "onload loaded = \<lparr>settings = loadSettings loaded, hasOpenFiles = False\<rparr>"

definition onload12 :: "SettingsData option \<Rightarrow> AutoSplitSettings12 AutoSplitPlugin" where
  "onload12 loaded = \<lparr>settings = loadSettings12 loaded, hasOpenFiles = False\<rparr>"

definition onLayoutReady :: "Workspace \<Rightarrow> 's AutoSplitPlugin \<Rightarrow> 's AutoSplitPlugin" where
  "onLayoutReady ws p = updateHasOpenFiles ws p"

section \<open>Notions used in the statements\<close>

text \<open>
  The side of the main area that both snapshots compare with \<^verbatim>\<open>minSize\<close>: the size is
  measured, the direction resolved, and the width taken for a vertical split, the height
  otherwise.
\<close>

definition comparedDimension :: "'a SplitSettings_scheme \<Rightarrow> Workspace \<Rightarrow> int" where
  "comparedDimension s ws =
     comparedSize (resolveDirection s (getRootContainerSize ws)) (getRootContainerSize ws)"

text \<open>
  The checks a \<^verbatim>\<open>file-open\<close> event has to pass before the size is compared. For release
  1.1.0 this is the condition of the handler's outer \<^verbatim>\<open>if\<close>. For release 1.2 it is the
  condition of the handler's \<^verbatim>\<open>if\<close> (with the query returning) together with the first
  line of \<^verbatim>\<open>splitActiveFile\<close>, which returns when there is no active markdown view.
\<close>

definition autoSplitChecks ::
  "Platform \<Rightarrow> AutoSplitSettings AutoSplitPlugin \<Rightarrow> string option \<Rightarrow> Workspace \<Rightarrow> bool" where
  "autoSplitChecks plat p fileArg ws =
     (isEnabledOnPlatform plat (settings p) \<and> activeLeaf ws \<noteq> None
      \<and> \<not> hasOpenFiles p \<and> fileArg \<noteq> None)"

definition autoSplitChecks12 ::
  "Platform \<Rightarrow> AutoSplitSettings12 AutoSplitPlugin \<Rightarrow> string option \<Rightarrow> Workspace \<Rightarrow> bool" where
  "autoSplitChecks12 plat p fileArg ws =
     (autoSplit (settings p) \<and> \<not> isPhone plat
      \<and> (case getLeavesOfType ws ''markdown'' of Inl e \<Rightarrow> False | Inr ls \<Rightarrow> length ls = 1)
      \<and> \<not> hasOpenFiles p \<and> fileArg \<noteq> None
      \<and> getActiveViewOfType_MarkdownView ws \<noteq> None)"

text \<open>
  The state after the handler of release 1.2: what it returns, or the state it was called in
  when the query in its condition threw (nothing has been changed by then).
\<close>

definition fileOpen12_state ::
  "Platform \<Rightarrow> string option \<Rightarrow> AutoSplitSettings12 AutoSplitPlugin \<times> Workspace
     \<Rightarrow> AutoSplitSettings12 AutoSplitPlugin \<times> Workspace" where
  "fileOpen12_state plat fileArg s =
     (case fileOpen12 plat fileArg s of Inl e \<Rightarrow> s | Inr s' \<Rightarrow> s')"

text \<open>
  Two modes are complementary when one is the editor and the other the preview. The leading
  mode of two panes is the mode of the one that comes first in the layout.
\<close>

definition complementary :: "PaneTypeSetting option \<Rightarrow> PaneTypeSetting option \<Rightarrow> bool" where
  "complementary a b =
     ((a = Some Source \<and> b = Some Preview) \<or> (a = Some Preview \<and> b = Some Source))"

definition leadingMode :: "Workspace \<Rightarrow> nat \<Rightarrow> nat \<Rightarrow> PaneTypeSetting option" where
  "leadingMode ws a b =
     (case find (\<lambda>l. l = a \<or> l = b) (layout ws) of
        None \<Rightarrow> None
      | Some l \<Rightarrow> mode (getViewState ws l))"

text \<open>
  A run of the plugin: it starts when the layout is ready, and then handles one
  \<^verbatim>\<open>file-open\<close> event after the other. Between two events the host changes the
  workspace; every event comes with the file it announces and the workspace as the host
  shows it at that moment.
\<close>

definition start ::
  "SettingsData option \<Rightarrow> Workspace \<Rightarrow> AutoSplitSettings AutoSplitPlugin \<times> Workspace" where
  "start loaded ws = (onLayoutReady ws (onload loaded), ws)"

definition start12 ::
  "SettingsData option \<Rightarrow> Workspace \<Rightarrow> AutoSplitSettings12 AutoSplitPlugin \<times> Workspace" where
  "start12 loaded ws = (onLayoutReady ws (onload12 loaded), ws)"

fun run ::
  "Platform \<Rightarrow> (string option \<times> Workspace) list
     \<Rightarrow> AutoSplitSettings AutoSplitPlugin \<times> Workspace
     \<Rightarrow> AutoSplitSettings AutoSplitPlugin \<times> Workspace" where
  "run plat [] s = s"
| "run plat (ev # evs) s = run plat evs (fileOpen plat (fst ev) (fst s, snd ev))"

fun run12 ::
  "Platform \<Rightarrow> (string option \<times> Workspace) list
     \<Rightarrow> AutoSplitSettings12 AutoSplitPlugin \<times> Workspace
     \<Rightarrow> AutoSplitSettings12 AutoSplitPlugin \<times> Workspace" where
  "run12 plat [] s = s"
| "run12 plat (ev # evs) s = run12 plat evs (fileOpen12_state plat (fst ev) (fst s, snd ev))"

section \<open>Example inputs\<close>

text \<open>
  A desktop and a mobile platform; a workspace with one note \<^verbatim>\<open>a.md\<close> in its only pane,
  with the size of the main area and the mode of the pane left open; the same workspace
  with a failing enumeration of leaves, and with no pane at all; a blob that only switches
  \<^verbatim>\<open>linkPanes\<close> off, and one whose \<^verbatim>\<open>enabledOn\<close> object has one of its two properties.
\<close>

definition example_platform :: Platform where
  "example_platform = \<lparr>isDesktop = True, isMobile = False, isPhone = False\<rparr>"

definition example_mobile :: Platform where
  "example_mobile = \<lparr>isDesktop = False, isMobile = True, isPhone = False\<rparr>"

definition example_note :: "PaneTypeSetting \<Rightarrow> LeafData" where
  "example_note m =
     \<lparr>viewState = \<lparr>viewType = ''markdown'', mode = Some m, active = False\<rparr>,
      leafFile = Some ''a.md'', splitDirection = None\<rparr>"

definition example_workspace :: "int \<Rightarrow> int \<Rightarrow> PaneTypeSetting \<Rightarrow> Workspace" where
  "example_workspace w h m =
     \<lparr>layout = [1], leafData = (\<lambda>l. example_note m), activeLeaf = Some 1,
      focusedLeaf = Some 1, groups = [], rootContainer = Some \<lparr>width = w, height = h\<rparr>,
      window = \<lparr>width = w, height = h\<rparr>, activeEditorFile = Some ''a.md'',
      leavesQueryThrows = False\<rparr>"

definition example_throwing :: Workspace where
  "example_throwing = (example_workspace 1200 800 Source)\<lparr>leavesQueryThrows := True\<rparr>"

definition example_empty :: Workspace where
  "example_empty =
     (example_workspace 1200 800 Source)\<lparr>layout := [], activeLeaf := None, focusedLeaf := None,
        activeEditorFile := None\<rparr>"

definition example_unlinked :: SettingsData where
  "example_unlinked =
     \<lparr>data_enabledOn = None, data_autoSplit = None, data_minSize = None,
      data_direction = None, data_editorFirst = None, data_paneToFocus = None,
      data_linkPanes = Some False\<rparr>"

definition example_partial :: SettingsData where
  "example_partial =
     \<lparr>data_enabledOn = Some \<lparr>desktop = Some False, mobile = None\<rparr>, data_autoSplit = None,
      data_minSize = None, data_direction = None, data_editorFirst = None,
      data_paneToFocus = None, data_linkPanes = None\<rparr>"

text \<open>
  Two blobs that fix the direction of the split; a workspace whose window is larger than the
  container of its main area; a workspace whose only pane shows an image, a view without a
  mode; and a workspace whose pane gives a view-state snapshot with \<^verbatim>\<open>active\<close> set.
\<close>

definition example_vertical :: SettingsData where
  "example_vertical =
     \<lparr>data_enabledOn = None, data_autoSplit = None, data_minSize = None,
      data_direction = Some Vertical, data_editorFirst = None, data_paneToFocus = None,
      data_linkPanes = None\<rparr>"

definition example_horizontal :: SettingsData where
  "example_horizontal =
     \<lparr>data_enabledOn = None, data_autoSplit = None, data_minSize = None,
      data_direction = Some Horizontal, data_editorFirst = None, data_paneToFocus = None,
      data_linkPanes = None\<rparr>"

definition example_windowed :: "int \<Rightarrow> int \<Rightarrow> Workspace" where
  "example_windowed w h =
     (example_workspace w h Source)\<lparr>window := \<lparr>width = 1300, height = 1250\<rparr>\<rparr>"

definition example_image :: Workspace where
  "example_image =
     (example_workspace 1200 800 Source)
       \<lparr>leafData := (\<lambda>l. \<lparr>viewState = \<lparr>viewType = ''image'', mode = None, active = False\<rparr>,
                            leafFile = Some ''a.png'', splitDirection = None\<rparr>),
        activeEditorFile := None\<rparr>"

definition example_active :: Workspace where
  "example_active =
     (example_workspace 1200 800 Source)
       \<lparr>leafData := (\<lambda>l. \<lparr>viewState = \<lparr>viewType = ''markdown'', mode = Some Source,
                                          active = True\<rparr>,
                            leafFile = Some ''a.md'', splitDirection = None\<rparr>)\<rparr>"

section \<open>Facts about the host operations\<close>

lemma insertBeside_length: "length (insertBeside l b n xs) = Suc (length xs)"
  by (induction xs) simp_all

lemma insertBeside_changes: "insertBeside l b n xs \<noteq> xs"
proof
  assume "insertBeside l b n xs = xs"
  then have "length (insertBeside l b n xs) = length xs" by simp
  then show False by (simp add: insertBeside_length)
qed

lemma foldr_max_upper: "x \<in> set xs \<Longrightarrow> x \<le> foldr max xs (0::nat)"
  by (induction xs) auto

lemma newLeafId_fresh: "newLeafId ws \<notin> set (layout ws)"
proof
  assume "newLeafId ws \<in> set (layout ws)"
  then have "newLeafId ws \<le> foldr max (layout ws) 0" by (rule foldr_max_upper)
  then show False by (simp add: newLeafId_def)
qed

lemma newLeafId_other: "l \<in> set (layout ws) \<Longrightarrow> newLeafId ws \<noteq> l"
  using newLeafId_fresh [of ws] by auto

lemma find_insertBeside:
  "l \<in> set xs \<Longrightarrow> n \<notin> set xs \<Longrightarrow>
   find (\<lambda>i. i = l \<or> i = n) (insertBeside l b n xs) = Some (if b then n else l)"
  by (induction xs) auto

lemma activeMarkdown_viewType:
  "getActiveViewOfType_MarkdownView ws = Some l \<Longrightarrow> viewType (getViewState ws l) = ''markdown''"
  by (simp add: getActiveViewOfType_MarkdownView_def split: option.splits if_splits)

lemma activeMarkdown_is_activeLeaf:
  "activeLeaf ws = Some l \<Longrightarrow> getActiveViewOfType_MarkdownView ws \<noteq> None
   \<Longrightarrow> getActiveViewOfType_MarkdownView ws = Some l"
  by (simp add: getActiveViewOfType_MarkdownView_def split: if_splits)

lemma updateHasOpenFiles_flag:
  "\<not> leavesQueryThrows ws \<Longrightarrow>
   hasOpenFiles (updateHasOpenFiles ws p) = (leavesOfType ws ''markdown'' \<noteq> [])"
  by (simp add: updateHasOpenFiles_def getLeavesOfType_def)

lemma resolveDirection_not_Auto: "resolveDirection s sz \<noteq> Auto"
  by (simp add: resolveDirection_def)

lemma comparedDimension_side:
  "comparedDimension s ws =
     (case resolveDirection s (getRootContainerSize ws) of
        Vertical \<Rightarrow> width (getRootContainerSize ws)
      | Horizontal \<Rightarrow> height (getRootContainerSize ws)
      | Auto \<Rightarrow> height (getRootContainerSize ws))"
  by (simp add: comparedDimension_def comparedSize_def split: SplitDirectionSetting.splits)

lemma toggleMode_complementary:
  "m \<noteq> None \<Longrightarrow> complementary m (Some (toggleMode m))"
  by (cases m) (auto simp add: complementary_def toggleMode_def intro: PaneTypeSetting.exhaust)

section \<open>What the handler of release 1.1.0 does\<close>

text \<open>
  Either the checks and the size comparison pass, and the handler inserts one new leaf
  beside the active one, or the workspace is left as it is.
\<close>

lemmas host_defs = createLeafBySplit_def openFile_def setGroupMember_def setActiveLeaf_def
  emptyLeaf_def

lemma fileOpen_noop:
  "\<not> (autoSplitChecks plat p fileArg ws \<and> comparedDimension (settings p) ws > minSize (settings p))
   \<Longrightarrow> snd (fileOpen plat fileArg (p, ws)) = ws"
  by (auto simp add: fileOpen_def autoSplitChecks_def comparedDimension_def Let_def)

lemma fileOpen_fst:
  "fst (fileOpen plat fileArg (p, ws)) = updateHasOpenFiles (snd (fileOpen plat fileArg (p, ws))) p"
  by (simp add: fileOpen_def Let_def)

lemma fileOpen_layout:
  assumes "autoSplitChecks plat p fileArg ws"
    and "comparedDimension (settings p) ws > minSize (settings p)"
    and "activeLeaf ws = Some l"
  shows "layout (snd (fileOpen plat fileArg (p, ws))) =
         insertBeside l (toggleMode (mode (getViewState ws l))
                           = (if editorFirst (settings p) then Source else Preview))
           (newLeafId ws) (layout ws)"
  using assms
  by (simp add: fileOpen_def autoSplitChecks_def comparedDimension_def Let_def host_defs)

lemma fileOpen_leafData:
  assumes "autoSplitChecks plat p fileArg ws"
    and "comparedDimension (settings p) ws > minSize (settings p)"
    and "activeLeaf ws = Some l"
  shows "leafData (snd (fileOpen plat fileArg (p, ws))) =
         (leafData ws)(newLeafId ws :=
            \<lparr>viewState = (getViewState ws l)\<lparr>mode := Some (toggleMode (mode (getViewState ws l)))\<rparr>,
             leafFile = fileArg,
             splitDirection = Some (resolveDirection (settings p) (getRootContainerSize ws))\<rparr>)"
  using assms
  by (auto simp add: fileOpen_def autoSplitChecks_def comparedDimension_def Let_def host_defs)

lemma fileOpen_groups:
  assumes "autoSplitChecks plat p fileArg ws"
    and "comparedDimension (settings p) ws > minSize (settings p)"
    and "activeLeaf ws = Some l"
  shows "groups (snd (fileOpen plat fileArg (p, ws))) =
         (if linkPanes (settings p) then groups ws @ [(l, newLeafId ws)] else groups ws)"
  using assms
  by (simp add: fileOpen_def autoSplitChecks_def comparedDimension_def Let_def host_defs)


lemma fileOpen_others:
  "leavesQueryThrows (snd (fileOpen plat fileArg (p, ws))) = leavesQueryThrows ws"
  "rootContainer (snd (fileOpen plat fileArg (p, ws))) = rootContainer ws"
  by (simp_all add: fileOpen_def Let_def host_defs split_def)

lemma fileOpen_split_iff:
  "(layout (snd (fileOpen plat fileArg (p, ws))) \<noteq> layout ws) =
   (autoSplitChecks plat p fileArg ws \<and> comparedDimension (settings p) ws > minSize (settings p))"
proof (cases "autoSplitChecks plat p fileArg ws \<and> comparedDimension (settings p) ws > minSize (settings p)")
  case True
  then obtain l where "activeLeaf ws = Some l" by (auto simp add: autoSplitChecks_def)
  with True show ?thesis by (simp add: fileOpen_layout insertBeside_changes)
next
  case False
  then show ?thesis using fileOpen_noop [OF False] by simp
qed

lemma fileOpen_split_facts:
  assumes "layout (snd (fileOpen plat fileArg (p, ws))) \<noteq> layout ws"
  shows "autoSplitChecks plat p fileArg ws"
    and "comparedDimension (settings p) ws > minSize (settings p)"
  using assms by (simp_all add: fileOpen_split_iff)

lemma fileOpen_modes:
  assumes split: "layout (snd (fileOpen plat fileArg (p, ws))) \<noteq> layout ws"
    and act: "activeLeaf ws = Some l" and inl: "l \<in> set (layout ws)"
  shows "mode (getViewState (snd (fileOpen plat fileArg (p, ws))) (newLeafId ws))
           = Some (toggleMode (mode (getViewState ws l)))"
    and "getViewState (snd (fileOpen plat fileArg (p, ws))) l = getViewState ws l"
  using fileOpen_leafData [OF fileOpen_split_facts [OF split] act] newLeafId_other [OF inl]
  by (simp_all add: getViewState_def)

lemma fileOpen_splitDirection:
  assumes split: "layout (snd (fileOpen plat fileArg (p, ws))) \<noteq> layout ws"
  shows "splitDirection (leafData (snd (fileOpen plat fileArg (p, ws))) (newLeafId ws))
           = Some (resolveDirection (settings p) (getRootContainerSize ws))"
proof -
  note f = fileOpen_split_facts [OF split]
  from f(1) obtain l where "activeLeaf ws = Some l" by (auto simp add: autoSplitChecks_def)
  from fileOpen_leafData [OF f this] show ?thesis by simp
qed

lemma fileOpen_flag:
  assumes "\<not> leavesQueryThrows (snd (fileOpen plat fileArg (p, ws)))"
  shows "hasOpenFiles (fst (fileOpen plat fileArg (p, ws)))
         = (leavesOfType (snd (fileOpen plat fileArg (p, ws))) ''markdown'' \<noteq> [])"
  using assms by (simp add: fileOpen_fst [of plat fileArg p ws] updateHasOpenFiles_flag)

section \<open>What release 1.2 does\<close>

text \<open>
  The same facts for \<open>splitActiveFile\<close>, and through it for the handler and the command.
  The test of the view's type inside \<open>splitActiveFile\<close> never fails, since the leaf was
  found as the leaf of a markdown view.
\<close>

lemma splitActiveFile_noop:
  "\<not> (getActiveViewOfType_MarkdownView ws \<noteq> None
       \<and> comparedDimension (settings p) ws > minSize (settings p))
   \<Longrightarrow> splitActiveFile p f a ws = ws"
  by (auto simp add: splitActiveFile_def comparedDimension_def Let_def split: option.splits)

lemma splitActiveFile_layout:
  assumes "getActiveViewOfType_MarkdownView ws = Some l"
    and "comparedDimension (settings p) ws > minSize (settings p)"
  shows "layout (splitActiveFile p f a ws) =
         insertBeside l (a \<and> toggleMode (mode (getViewState ws l))
                           = (if editorFirst (settings p) then Source else Preview))
           (newLeafId ws) (layout ws)"
  using assms activeMarkdown_viewType [OF assms(1)]
  by (simp add: splitActiveFile_def comparedDimension_def Let_def host_defs)

lemma splitActiveFile_leafData:
  assumes "getActiveViewOfType_MarkdownView ws = Some l"
    and "comparedDimension (settings p) ws > minSize (settings p)"
  shows "leafData (splitActiveFile p f a ws) =
         (leafData ws)(newLeafId ws :=
            \<lparr>viewState = (getViewState ws l)\<lparr>active := False,
                               mode := Some (toggleMode (mode (getViewState ws l)))\<rparr>,
             leafFile = Some f,
             splitDirection = Some (resolveDirection (settings p) (getRootContainerSize ws))\<rparr>)"
  using assms activeMarkdown_viewType [OF assms(1)]
  by (simp add: splitActiveFile_def comparedDimension_def Let_def host_defs)

lemma splitActiveFile_groups:
  assumes "getActiveViewOfType_MarkdownView ws = Some l"
    and "comparedDimension (settings p) ws > minSize (settings p)"
  shows "groups (splitActiveFile p f a ws) =
         (if \<not> a \<or> linkPanes (settings p) then groups ws @ [(l, newLeafId ws)] else groups ws)"
  using assms activeMarkdown_viewType [OF assms(1)]
  by (simp add: splitActiveFile_def comparedDimension_def Let_def host_defs)


lemma splitActiveFile_others:
  "leavesQueryThrows (splitActiveFile p f a ws) = leavesQueryThrows ws"
  "rootContainer (splitActiveFile p f a ws) = rootContainer ws"
  by (simp_all add: splitActiveFile_def Let_def host_defs split_def split: option.splits)

lemma splitActiveFile_split_iff:
  "(layout (splitActiveFile p f a ws) \<noteq> layout ws) =
   (getActiveViewOfType_MarkdownView ws \<noteq> None
    \<and> comparedDimension (settings p) ws > minSize (settings p))"
proof (cases "getActiveViewOfType_MarkdownView ws \<noteq> None
    \<and> comparedDimension (settings p) ws > minSize (settings p)")
  case True
  then obtain l where "getActiveViewOfType_MarkdownView ws = Some l" by auto
  with True show ?thesis by (simp add: splitActiveFile_layout insertBeside_changes)
next
  case False
  then show ?thesis using splitActiveFile_noop [OF False] by simp
qed

lemma splitActiveFile_modes:
  assumes act: "getActiveViewOfType_MarkdownView ws = Some l"
    and gate: "comparedDimension (settings q) ws > minSize (settings q)"
    and inl: "l \<in> set (layout ws)"
  shows "mode (getViewState (splitActiveFile q f a ws) (newLeafId ws))
           = Some (toggleMode (mode (getViewState ws l)))"
    and "getViewState (splitActiveFile q f a ws) l = getViewState ws l"
  using splitActiveFile_leafData [OF act gate] newLeafId_other [OF inl]
  by (simp_all add: getViewState_def)

lemma splitActiveFile_splitDirection:
  assumes split: "layout (splitActiveFile q f a ws) \<noteq> layout ws"
  shows "splitDirection (leafData (splitActiveFile q f a ws) (newLeafId ws))
           = Some (resolveDirection (settings q) (getRootContainerSize ws))"
proof -
  from split have g: "getActiveViewOfType_MarkdownView ws \<noteq> None"
    and t: "comparedDimension (settings q) ws > minSize (settings q)"
    by (simp_all add: splitActiveFile_split_iff)
  from g obtain l where "getActiveViewOfType_MarkdownView ws = Some l" by auto
  from splitActiveFile_leafData [OF this t] show ?thesis by simp
qed

lemma splitActiveFile_manual_ignores:
  "splitActiveFile (q\<lparr>settings := (settings q)\<lparr>editorFirst := e, paneToFocus := t,
       linkPanes := k\<rparr>\<rparr>) f False ws = splitActiveFile q f False ws"
  by (simp add: splitActiveFile_def resolveDirection_def Let_def split_def split: option.splits)

lemma fileOpen12_state_snd:
  "snd (fileOpen12_state plat fileArg (p, ws)) =
     (if autoSplit (settings p) \<and> \<not> isPhone plat
         \<and> (case getLeavesOfType ws ''markdown'' of Inl e \<Rightarrow> False | Inr ls \<Rightarrow> length ls = 1)
         \<and> \<not> hasOpenFiles p \<and> fileArg \<noteq> None
      then splitActiveFile p (the fileArg) True ws else ws)"
  by (auto simp add: fileOpen12_state_def fileOpen12_def Let_def split: sum.splits)

lemma fileOpen12_state_fst:
  "fileOpen12 plat fileArg (p, ws) = Inr s' \<Longrightarrow> fst s' = updateHasOpenFiles (snd s') p"
  by (auto simp add: fileOpen12_def Let_def split: sum.splits if_splits)

lemma fileOpen12_returns:
  "autoSplitChecks12 plat p fileArg ws \<Longrightarrow> \<exists>s'. fileOpen12 plat fileArg (p, ws) = Inr s'"
  by (auto simp add: fileOpen12_def autoSplitChecks12_def Let_def split: sum.splits)

lemma fileOpen12_split_iff:
  "(layout (snd (fileOpen12_state plat fileArg (q, ws))) \<noteq> layout ws) =
   (autoSplitChecks12 plat q fileArg ws \<and> comparedDimension (settings q) ws > minSize (settings q))"
  by (auto simp add: fileOpen12_state_snd splitActiveFile_split_iff autoSplitChecks12_def)

lemma fileOpen12_split_facts:
  assumes "layout (snd (fileOpen12_state plat fileArg (q, ws))) \<noteq> layout ws"
  shows "snd (fileOpen12_state plat fileArg (q, ws)) = splitActiveFile q (the fileArg) True ws"
    and "getActiveViewOfType_MarkdownView ws \<noteq> None"
    and "comparedDimension (settings q) ws > minSize (settings q)"
    and "\<not> hasOpenFiles q"
proof -
  show a: "snd (fileOpen12_state plat fileArg (q, ws)) = splitActiveFile q (the fileArg) True ws"
    using assms by (simp add: fileOpen12_state_snd split: if_splits)
  from assms a have "layout (splitActiveFile q (the fileArg) True ws) \<noteq> layout ws" by simp
  then show "getActiveViewOfType_MarkdownView ws \<noteq> None"
    and "comparedDimension (settings q) ws > minSize (settings q)"
    by (simp_all add: splitActiveFile_split_iff)
  show "\<not> hasOpenFiles q"
    using assms by (simp add: fileOpen12_state_snd split: if_splits)
qed

lemma fileOpen12_state_flag:
  assumes "\<not> leavesQueryThrows (snd (fileOpen12_state plat fileArg (q, ws)))"
  shows "hasOpenFiles (fst (fileOpen12_state plat fileArg (q, ws)))
         = (leavesOfType (snd (fileOpen12_state plat fileArg (q, ws))) ''markdown'' \<noteq> [])"
proof (cases "fileOpen12 plat fileArg (q, ws)")
  case (Inl e)
  then have "leavesQueryThrows ws"
    by (auto simp add: fileOpen12_def getLeavesOfType_def Let_def split: if_splits sum.splits)
  moreover from Inl have "snd (fileOpen12_state plat fileArg (q, ws)) = ws"
    by (simp add: fileOpen12_state_def)
  ultimately show ?thesis using assms by simp
next
  case (Inr s')
  then have "fileOpen12_state plat fileArg (q, ws) = s'"
    by (simp add: fileOpen12_state_def)
  with fileOpen12_state_fst [OF Inr] assms show ?thesis
    by (simp add: updateHasOpenFiles_flag)
qed

lemma checkCallback_snd:
  "snd (checkCallback plat p checking ws) =
     (if \<not> isPhone plat \<and> activeEditorFile ws \<noteq> None \<and> \<not> checking
      then splitActiveFile p (the (activeEditorFile ws)) False ws else ws)"
  by (simp add: checkCallback_def split: option.splits)

lemma checkCallback_split_iff:
  "(layout (snd (checkCallback plat q checking ws)) \<noteq> layout ws) =
   (\<not> isPhone plat \<and> activeEditorFile ws \<noteq> None \<and> \<not> checking
    \<and> getActiveViewOfType_MarkdownView ws \<noteq> None
    \<and> comparedDimension (settings q) ws > minSize (settings q))"
  by (auto simp add: checkCallback_snd splitActiveFile_split_iff)

lemma checkCallback_split_facts:
  assumes "layout (snd (checkCallback plat q checking ws)) \<noteq> layout ws"
  shows "snd (checkCallback plat q checking ws)
           = splitActiveFile q (the (activeEditorFile ws)) False ws"
    and "getActiveViewOfType_MarkdownView ws \<noteq> None"
    and "comparedDimension (settings q) ws > minSize (settings q)"
proof -
  show a: "snd (checkCallback plat q checking ws)
           = splitActiveFile q (the (activeEditorFile ws)) False ws"
    using assms by (simp add: checkCallback_snd split: if_splits)
  from assms a have "layout (splitActiveFile q (the (activeEditorFile ws)) False ws) \<noteq> layout ws"
    by simp
  then show "getActiveViewOfType_MarkdownView ws \<noteq> None"
    and "comparedDimension (settings q) ws > minSize (settings q)"
    by (simp_all add: splitActiveFile_split_iff)
qed

section \<open>The two panes after a split, and runs\<close>

lemma leadingMode_after_split:
  assumes lay: "layout ws' = insertBeside l b (newLeafId ws) (layout ws)"
    and inl: "l \<in> set (layout ws)"
    and new: "mode (getViewState ws' (newLeafId ws)) = Some (toggleMode (mode (getViewState ws l)))"
    and old: "getViewState ws' l = getViewState ws l"
    and m: "mode (getViewState ws l) \<noteq> None"
    and b: "b = (toggleMode (mode (getViewState ws l)) = (if e then Source else Preview))"
  shows "leadingMode ws' l (newLeafId ws) = Some (if e then Source else Preview)"
proof -
  have f: "find (\<lambda>i. i = l \<or> i = newLeafId ws) (layout ws')
             = Some (if b then newLeafId ws else l)"
    unfolding lay by (rule find_insertBeside [OF inl newLeafId_fresh])
  from m obtain x where x: "mode (getViewState ws l) = Some x" by auto
  show ?thesis
    using new old x b
    by (cases x; cases e) (simp_all add: leadingMode_def f toggleMode_def)
qed

lemma run_snoc:
  "run plat (evs @ [ev]) s = fileOpen plat (fst ev) (fst (run plat evs s), snd ev)"
  by (induction evs arbitrary: s) simp_all

lemma run12_snoc:
  "run12 plat (evs @ [ev]) s = fileOpen12_state plat (fst ev) (fst (run12 plat evs s), snd ev)"
  by (induction evs arbitrary: s) simp_all

lemma run_flag:
  assumes "\<not> leavesQueryThrows (snd (run plat evs (start loaded ws0)))"
  shows "hasOpenFiles (fst (run plat evs (start loaded ws0)))
         = (leavesOfType (snd (run plat evs (start loaded ws0))) ''markdown'' \<noteq> [])"
proof (cases evs rule: rev_cases)
  case Nil
  with assms show ?thesis
    by (simp add: start_def onLayoutReady_def updateHasOpenFiles_flag)
next
  case (snoc evs' ev)
  with assms show ?thesis by (simp add: run_snoc fileOpen_flag)
qed

lemma run12_flag:
  assumes "\<not> leavesQueryThrows (snd (run12 plat evs (start12 loaded ws0)))"
  shows "hasOpenFiles (fst (run12 plat evs (start12 loaded ws0)))
         = (leavesOfType (snd (run12 plat evs (start12 loaded ws0))) ''markdown'' \<noteq> [])"
proof (cases evs rule: rev_cases)
  case Nil
  with assms show ?thesis
    by (simp add: start12_def onLayoutReady_def updateHasOpenFiles_flag)
next
  case (snoc evs' ev)
  with assms show ?thesis by (simp add: run12_snoc fileOpen12_state_flag)
qed

text \<open>
  The measured size, the compared dimension and the resolved direction, written out in terms
  of the workspace and the settings.
\<close>

lemma getRootContainerSize_area:
  "getRootContainerSize ws = (case rootContainer ws of Some c \<Rightarrow> c | None \<Rightarrow> window ws)"
  by (simp add: getRootContainerSize_def split: option.splits)

lemma comparedDimension_explicit:
  "comparedDimension s ws =
     (if direction s = Vertical
         \<or> (direction s = Auto
             \<and> width (case rootContainer ws of Some c \<Rightarrow> c | None \<Rightarrow> window ws)
                 \<ge> height (case rootContainer ws of Some c \<Rightarrow> c | None \<Rightarrow> window ws))
      then width (case rootContainer ws of Some c \<Rightarrow> c | None \<Rightarrow> window ws)
      else height (case rootContainer ws of Some c \<Rightarrow> c | None \<Rightarrow> window ws))"
  by (cases "direction s")
    (simp_all add: comparedDimension_def comparedSize_def resolveDirection_def
      getRootContainerSize_area)

lemma resolveDirection_explicit:
  "resolveDirection s (getRootContainerSize ws) =
     (if direction s = Vertical
         \<or> (direction s = Auto
             \<and> width (case rootContainer ws of Some c \<Rightarrow> c | None \<Rightarrow> window ws)
                 \<ge> height (case rootContainer ws of Some c \<Rightarrow> c | None \<Rightarrow> window ws))
      then Vertical else Horizontal)"
  by (cases "direction s") (simp_all add: resolveDirection_def getRootContainerSize_area)

lemma activeMarkdown_explicit:
  "(getActiveViewOfType_MarkdownView ws \<noteq> None) =
     (case activeLeaf ws of
        None \<Rightarrow> False
      | Some l \<Rightarrow> viewType (viewState (leafData ws l)) = ''markdown'')"
  by (simp add: getActiveViewOfType_MarkdownView_def getViewState_def split: option.splits)

lemma leadingMode_after_split_any:
  assumes lay: "layout ws' = insertBeside l b (newLeafId ws) (layout ws)"
    and inl: "l \<in> set (layout ws)"
    and new: "mode (getViewState ws' (newLeafId ws)) = Some (toggleMode (mode (getViewState ws l)))"
    and old: "getViewState ws' l = getViewState ws l"
    and b: "b = (toggleMode (mode (getViewState ws l)) = (if e then Source else Preview))"
    and m: "mode (getViewState ws l) \<noteq> None \<or> \<not> e"
  shows "leadingMode ws' l (newLeafId ws) = Some (if e then Source else Preview)"
proof (cases "mode (getViewState ws l)")
  case (Some x)
  then have "mode (getViewState ws l) \<noteq> None" by simp
  from leadingMode_after_split [OF lay inl new old this b] show ?thesis .
next
  case None
  with m have e: "\<not> e" by simp
  have f: "find (\<lambda>i. i = l \<or> i = newLeafId ws) (layout ws')
             = Some (if b then newLeafId ws else l)"
    unfolding lay by (rule find_insertBeside [OF inl newLeafId_fresh])
  show ?thesis
    using new None b e by (simp add: leadingMode_def f toggleMode_def)
qed

section \<open>The examples, evaluated\<close>

lemmas example_defs = example_platform_def example_note_def example_workspace_def
  onload_def onload12_def loadSettings_def loadSettings12_def
  DEFAULT_SETTINGS_def DEFAULT_SETTINGS12_def

lemmas plugin_defs = isEnabledOnPlatform_def getRootContainerSize_def resolveDirection_def
  comparedSize_def comparedDimension_def toggleMode_def getViewState_def
  getActiveViewOfType_MarkdownView_def getLeavesOfType_def leavesOfType_def newLeafId_def
  autoSplitChecks_def autoSplitChecks12_def updateHasOpenFiles_def

lemmas run_defs = fileOpen_def fileOpen12_state_def fileOpen12_def splitActiveFile_def
  start_def start12_def onLayoutReady_def example_throwing_def example_empty_def
  example_defs plugin_defs host_defs Let_def

lemma example_workspace_facts:
  "activeLeaf (example_workspace w h m) = Some 1"
  "1 \<in> set (layout (example_workspace w h m))"
  "mode (getViewState (example_workspace w h m) 1) = Some m"
  "newLeafId (example_workspace w h m) = 2"
  "focusedLeaf (example_workspace w h m) = Some 1"
  "groups (example_workspace w h m) = []"
  by (simp_all add: example_defs plugin_defs)

lemma example_splits:
  assumes "1000 < (if w \<ge> h then w else h)"
  shows "layout (snd (fileOpen example_platform (Some ''a.md'')
      (onload None, example_workspace w h m))) \<noteq> layout (example_workspace w h m)"
    and "layout (snd (fileOpen12_state example_platform (Some ''a.md'')
      (onload12 None, example_workspace w h m))) \<noteq> layout (example_workspace w h m)"
    and "layout (snd (checkCallback example_platform (onload12 None) False
      (example_workspace w h m))) \<noteq> layout (example_workspace w h m)"
  unfolding fileOpen_split_iff fileOpen12_split_iff checkCallback_split_iff
  using assms by (simp_all add: example_defs plugin_defs split: if_splits)

lemma example_unlinked_splits:
  assumes "1000 < (if w \<ge> h then w else h)"
  shows "layout (snd (fileOpen example_platform (Some ''a.md'')
      (onload (Some example_unlinked), example_workspace w h m)))
        \<noteq> layout (example_workspace w h m)"
    and "layout (snd (fileOpen12_state example_platform (Some ''a.md'')
      (onload12 (Some example_unlinked), example_workspace w h m)))
        \<noteq> layout (example_workspace w h m)"
    and "layout (snd (checkCallback example_platform (onload12 (Some example_unlinked)) False
      (example_workspace w h m))) \<noteq> layout (example_workspace w h m)"
  unfolding fileOpen_split_iff fileOpen12_split_iff checkCallback_split_iff
  using assms
  by (simp_all add: example_unlinked_def orDefault_def example_defs plugin_defs split: if_splits)

lemma boundary_1001_splits:
  "layout (snd (fileOpen example_platform (Some ''a.md'')
      (onload None, example_workspace 1001 800 Source))) = [1, 2]
   \<and> layout (snd (fileOpen12_state example_platform (Some ''a.md'')
      (onload12 None, example_workspace 1001 800 Source))) = [1, 2]"
  by (simp add: fileOpen_def fileOpen12_state_def fileOpen12_def splitActiveFile_def
      example_defs plugin_defs host_defs Let_def)

lemma example_leading_layouts:
  "layout (snd (fileOpen example_platform (Some ''a.md'')
      (onload None, example_workspace 800 1200 Preview))) = [2, 1]"
  "splitDirection (leafData (snd (fileOpen example_platform (Some ''a.md'')
      (onload None, example_workspace 800 1200 Preview))) 2) = Some Horizontal"
  "layout (snd (fileOpen example_platform (Some ''a.md'')
      (onload None, example_workspace 1200 800 Source))) = [1, 2]"
  by (simp_all add: fileOpen_def example_defs plugin_defs host_defs Let_def)

lemma example_run:
  "layout (snd (run example_platform [(Some ''a.md'', example_workspace 1200 800 Source)]
      (start None example_empty))) = [1, 2]"
  "\<not> leavesQueryThrows (snd (run example_platform
      [(Some ''a.md'', example_workspace 1200 800 Source)] (start None example_empty)))"
  "leavesOfType (snd (run example_platform [(Some ''a.md'', example_workspace 1200 800 Source)]
      (start None example_empty))) ''markdown'' = [1, 2]"
  "hasOpenFiles (fst (run example_platform [(Some ''a.md'', example_workspace 1200 800 Source)]
      (start None example_empty)))"
  "layout (snd (run12 example_platform [(Some ''a.md'', example_workspace 1200 800 Source)]
      (start12 None example_empty))) = [1, 2]"
  "\<not> leavesQueryThrows (snd (run12 example_platform
      [(Some ''a.md'', example_workspace 1200 800 Source)] (start12 None example_empty)))"
  "leavesOfType (snd (run12 example_platform [(Some ''a.md'', example_workspace 1200 800 Source)]
      (start12 None example_empty))) ''markdown'' = [1, 2]"
  "hasOpenFiles (fst (run12 example_platform [(Some ''a.md'', example_workspace 1200 800 Source)]
      (start12 None example_empty)))"
  by (simp_all add: run_defs)

lemmas image_defs = example_image_def example_active_def fileOpen_def example_defs plugin_defs
  host_defs Let_def

section \<open>The claims\<close>

text \<open>
  Claim C1. For every \<^verbatim>\<open>file-open\<close> event that passes the checks (platform enabled,
  nothing recorded as open, a file and an active view), the handler splits if and only if
  the compared dimension is strictly greater than \<open>minSize\<close>; when the two are equal the
  workspace is left exactly as it was. The main area is the root container when there is one
  and the window otherwise. The split is vertical when the configured direction is vertical,
  or is \<^verbatim>\<open>auto\<close> with a main area at least as wide as it is high, and horizontal
  otherwise; the compared dimension is the width of the main area for a vertical split and
  its height for a horizontal one, and a split that happens is made in that direction. This
  holds for the handler of release 1.1.0 and for the handler of release 1.2, which under
  these checks returns normally.
\<close>

theorem C1_split_iff_above_minSize:
  fixes ws :: Workspace
    and p :: "AutoSplitSettings AutoSplitPlugin" and q :: "AutoSplitSettings12 AutoSplitPlugin"
    and area :: Size and vertical vertical12 :: bool and dim dim12 :: int
  defines "area \<equiv> (case rootContainer ws of Some c \<Rightarrow> c | None \<Rightarrow> window ws)"
    and "vertical \<equiv> (direction (settings p) = Vertical
                       \<or> (direction (settings p) = Auto \<and> width area \<ge> height area))"
    and "vertical12 \<equiv> (direction (settings q) = Vertical
                         \<or> (direction (settings q) = Auto \<and> width area \<ge> height area))"
    and "dim \<equiv> (if vertical then width area else height area)"
    and "dim12 \<equiv> (if vertical12 then width area else height area)"
  shows "(autoSplitChecks plat p fileArg ws \<longrightarrow>
      ((layout (snd (fileOpen plat fileArg (p, ws))) \<noteq> layout ws) = (dim > minSize (settings p)))
      \<and> (dim = minSize (settings p) \<longrightarrow> snd (fileOpen plat fileArg (p, ws)) = ws)
      \<and> (dim > minSize (settings p) \<longrightarrow>
           splitDirection (leafData (snd (fileOpen plat fileArg (p, ws))) (newLeafId ws))
             = Some (if vertical then Vertical else Horizontal)))
   \<and> (autoSplitChecks12 plat q fileArg ws \<longrightarrow>
      fileOpen12 plat fileArg (q, ws) = Inr (fileOpen12_state plat fileArg (q, ws))
      \<and> ((layout (snd (fileOpen12_state plat fileArg (q, ws))) \<noteq> layout ws)
           = (dim12 > minSize (settings q)))
      \<and> (dim12 = minSize (settings q) \<longrightarrow> snd (fileOpen12_state plat fileArg (q, ws)) = ws)
      \<and> (dim12 > minSize (settings q) \<longrightarrow>
           splitDirection (leafData (snd (fileOpen12_state plat fileArg (q, ws))) (newLeafId ws))
             = Some (if vertical12 then Vertical else Horizontal)))"
proof -
  have cd: "comparedDimension (settings p) ws = dim"
    unfolding dim_def vertical_def area_def by (rule comparedDimension_explicit)
  have cd12: "comparedDimension (settings q) ws = dim12"
    unfolding dim12_def vertical12_def area_def by (rule comparedDimension_explicit)
  have rd: "resolveDirection (settings p) (getRootContainerSize ws)
              = (if vertical then Vertical else Horizontal)"
    unfolding vertical_def area_def by (rule resolveDirection_explicit)
  have rd12: "resolveDirection (settings q) (getRootContainerSize ws)
              = (if vertical12 then Vertical else Horizontal)"
    unfolding vertical12_def area_def by (rule resolveDirection_explicit)
  have a: "(layout (snd (fileOpen plat fileArg (p, ws))) \<noteq> layout ws)
         = (dim > minSize (settings p))"
    if "autoSplitChecks plat p fileArg ws"
    using that by (simp add: fileOpen_split_iff cd)
  have b: "snd (fileOpen plat fileArg (p, ws)) = ws" if "dim = minSize (settings p)"
    using that by (simp add: fileOpen_noop cd)
  have c: "splitDirection (leafData (snd (fileOpen plat fileArg (p, ws))) (newLeafId ws))
             = Some (if vertical then Vertical else Horizontal)"
    if "autoSplitChecks plat p fileArg ws" and "dim > minSize (settings p)"
  proof -
    from that have "layout (snd (fileOpen plat fileArg (p, ws))) \<noteq> layout ws"
      by (simp add: fileOpen_split_iff cd)
    from fileOpen_splitDirection [OF this] show ?thesis by (simp add: rd)
  qed
  have r: "fileOpen12 plat fileArg (q, ws) = Inr (fileOpen12_state plat fileArg (q, ws))"
    if "autoSplitChecks12 plat q fileArg ws"
    using fileOpen12_returns [OF that] by (auto simp add: fileOpen12_state_def)
  have d: "(layout (snd (fileOpen12_state plat fileArg (q, ws))) \<noteq> layout ws)
         = (dim12 > minSize (settings q))"
    if "autoSplitChecks12 plat q fileArg ws"
    using that by (simp add: fileOpen12_split_iff cd12)
  have e: "snd (fileOpen12_state plat fileArg (q, ws)) = ws" if "dim12 = minSize (settings q)"
    using that by (simp add: fileOpen12_state_snd splitActiveFile_noop cd12)
  have f: "splitDirection (leafData (snd (fileOpen12_state plat fileArg (q, ws))) (newLeafId ws))
             = Some (if vertical12 then Vertical else Horizontal)"
    if "autoSplitChecks12 plat q fileArg ws" and "dim12 > minSize (settings q)"
  proof -
    from that have s: "layout (snd (fileOpen12_state plat fileArg (q, ws))) \<noteq> layout ws"
      by (simp add: fileOpen12_split_iff cd12)
    then have "layout (splitActiveFile q (the fileArg) True ws) \<noteq> layout ws"
      using fileOpen12_split_facts(1) [OF s] by simp
    from splitActiveFile_splitDirection [OF this] show ?thesis
      by (simp add: fileOpen12_split_facts(1) [OF s] rd12)
  qed
  from a b c r d e f show ?thesis by blast
qed

theorem C1_split_iff_above_minSize_witness:
  "autoSplitChecks example_platform (onload (Some example_vertical)) (Some ''a.md'')
     (example_windowed 1000 1200)
   \<and> autoSplitChecks12 example_platform (onload12 (Some example_vertical)) (Some ''a.md'')
       (example_windowed 1000 1200)
   \<and> direction (settings (onload (Some example_vertical))) = Vertical
   \<and> direction (settings (onload12 (Some example_vertical))) = Vertical
   \<and> minSize (settings (onload (Some example_vertical))) = 1000
   \<and> minSize (settings (onload12 (Some example_vertical))) = 1000
   \<and> rootContainer (example_windowed 1000 1200) = Some \<lparr>width = 1000, height = 1200\<rparr>
   \<and> window (example_windowed 1000 1200) = \<lparr>width = 1300, height = 1250\<rparr>
   \<and> snd (fileOpen example_platform (Some ''a.md'')
        (onload (Some example_vertical), example_windowed 1000 1200))
       = example_windowed 1000 1200
   \<and> fileOpen12 example_platform (Some ''a.md'')
        (onload12 (Some example_vertical), example_windowed 1000 1200)
       = Inr (fileOpen12_state example_platform (Some ''a.md'')
           (onload12 (Some example_vertical), example_windowed 1000 1200))
   \<and> snd (fileOpen12_state example_platform (Some ''a.md'')
        (onload12 (Some example_vertical), example_windowed 1000 1200))
       = example_windowed 1000 1200
   \<and> autoSplitChecks example_platform (onload (Some example_vertical)) (Some ''a.md'')
       (example_windowed 1001 1200)
   \<and> autoSplitChecks12 example_platform (onload12 (Some example_vertical)) (Some ''a.md'')
       (example_windowed 1001 1200)
   \<and> rootContainer (example_windowed 1001 1200) = Some \<lparr>width = 1001, height = 1200\<rparr>
   \<and> layout (snd (fileOpen example_platform (Some ''a.md'')
        (onload (Some example_vertical), example_windowed 1001 1200)))
       \<noteq> layout (example_windowed 1001 1200)
   \<and> splitDirection (leafData (snd (fileOpen example_platform (Some ''a.md'')
        (onload (Some example_vertical), example_windowed 1001 1200)))
          (newLeafId (example_windowed 1001 1200))) = Some Vertical
   \<and> layout (snd (fileOpen12_state example_platform (Some ''a.md'')
        (onload12 (Some example_vertical), example_windowed 1001 1200)))
       \<noteq> layout (example_windowed 1001 1200)
   \<and> splitDirection (leafData (snd (fileOpen12_state example_platform (Some ''a.md'')
        (onload12 (Some example_vertical), example_windowed 1001 1200)))
          (newLeafId (example_windowed 1001 1200))) = Some Vertical"
proof -
  have c: "autoSplitChecks example_platform (onload (Some example_vertical)) (Some ''a.md'')
             (example_windowed w h)"
    "autoSplitChecks12 example_platform (onload12 (Some example_vertical)) (Some ''a.md'')
             (example_windowed w h)" for w h
    by (simp_all add: example_windowed_def example_vertical_def orDefault_def example_defs
        plugin_defs)
  have s: "direction (settings (onload (Some example_vertical))) = Vertical"
    "direction (settings (onload12 (Some example_vertical))) = Vertical"
    "minSize (settings (onload (Some example_vertical))) = 1000"
    "minSize (settings (onload12 (Some example_vertical))) = 1000"
    by (simp_all add: example_vertical_def orDefault_def example_defs)
  have a: "rootContainer (example_windowed w h) = Some \<lparr>width = w, height = h\<rparr>"
    "window (example_windowed w h) = \<lparr>width = 1300, height = 1250\<rparr>" for w h
    by (simp_all add: example_windowed_def example_defs)
  show ?thesis
    using c [of 1000 1200] c [of 1001 1200] s a [of 1000 1200] a [of 1001 1200]
      C1_split_iff_above_minSize [where plat = example_platform
        and p = "onload (Some example_vertical)" and q = "onload12 (Some example_vertical)"
        and fileArg = "Some ''a.md''" and ws = "example_windowed 1000 1200"]
      C1_split_iff_above_minSize [where plat = example_platform
        and p = "onload (Some example_vertical)" and q = "onload12 (Some example_vertical)"
        and fileArg = "Some ''a.md''" and ws = "example_windowed 1001 1200"]
    by simp
qed

text \<open>
  Claim C2. When the configured direction is \<^verbatim>\<open>auto\<close>, the resolved direction for a main
  area of width \<open>w\<close> and height \<open>h\<close> is vertical if and only if \<open>w \<ge> h\<close> (so also when
  they are equal) and horizontal if and only if \<open>w < h\<close>; and every automatic split, in
  either release, is made in the direction resolved this way from the measured size.
\<close>

theorem C2_auto_direction_by_aspect:
  fixes s :: "'a SplitSettings_scheme"
  shows "(direction s = Auto \<longrightarrow>
            (resolveDirection s \<lparr>width = w, height = h\<rparr> = Vertical) = (w \<ge> h)
            \<and> (resolveDirection s \<lparr>width = w, height = h\<rparr> = Horizontal) = (w < h))
       \<and> (direction (settings p) = Auto
            \<and> layout (snd (fileOpen plat fileArg (p, ws))) \<noteq> layout ws \<longrightarrow>
            splitDirection (leafData (snd (fileOpen plat fileArg (p, ws))) (newLeafId ws))
              = Some (if width (getRootContainerSize ws) \<ge> height (getRootContainerSize ws)
                      then Vertical else Horizontal))
       \<and> (direction (settings q) = Auto
            \<and> layout (snd (fileOpen12_state plat fileArg (q, ws))) \<noteq> layout ws \<longrightarrow>
            splitDirection (leafData (snd (fileOpen12_state plat fileArg (q, ws))) (newLeafId ws))
              = Some (if width (getRootContainerSize ws) \<ge> height (getRootContainerSize ws)
                      then Vertical else Horizontal))"
proof (intro conjI impI)
  assume "direction s = Auto"
  then show "(resolveDirection s \<lparr>width = w, height = h\<rparr> = Vertical) = (w \<ge> h)"
    and "(resolveDirection s \<lparr>width = w, height = h\<rparr> = Horizontal) = (w < h)"
    by (auto simp add: resolveDirection_def)
next
  assume a: "direction (settings p) = Auto
     \<and> layout (snd (fileOpen plat fileArg (p, ws))) \<noteq> layout ws"
  then show "splitDirection (leafData (snd (fileOpen plat fileArg (p, ws))) (newLeafId ws))
      = Some (if width (getRootContainerSize ws) \<ge> height (getRootContainerSize ws)
              then Vertical else Horizontal)"
    by (simp add: fileOpen_splitDirection resolveDirection_def)
next
  assume a: "direction (settings q) = Auto
     \<and> layout (snd (fileOpen12_state plat fileArg (q, ws))) \<noteq> layout ws"
  then have "layout (splitActiveFile q (the fileArg) True ws) \<noteq> layout ws"
    using fileOpen12_split_facts(1) [of plat fileArg q ws] by simp
  from splitActiveFile_splitDirection [OF this] a
  show "splitDirection (leafData (snd (fileOpen12_state plat fileArg (q, ws))) (newLeafId ws))
      = Some (if width (getRootContainerSize ws) \<ge> height (getRootContainerSize ws)
              then Vertical else Horizontal)"
    using fileOpen12_split_facts(1) [of plat fileArg q ws]
    by (simp add: resolveDirection_def)
qed

theorem C2_auto_direction_by_aspect_witness:
  "direction (settings (onload None)) = Auto
   \<and> direction (settings (onload12 None)) = Auto
   \<and> resolveDirection (settings (onload None)) \<lparr>width = 1200, height = 1200\<rparr> = Vertical
   \<and> resolveDirection (settings (onload None)) \<lparr>width = 1199, height = 1200\<rparr> = Horizontal
   \<and> splitDirection (leafData (snd (fileOpen example_platform (Some ''a.md'')
        (onload None, example_workspace 1200 1200 Source))) 2) = Some Vertical
   \<and> splitDirection (leafData (snd (fileOpen12_state example_platform (Some ''a.md'')
        (onload12 None, example_workspace 1200 1200 Source))) 2) = Some Vertical"
proof -
  have h1: "direction (settings (onload None)) = Auto"
    and h2: "direction (settings (onload12 None)) = Auto"
    by (simp_all add: example_defs)
  have sz: "getRootContainerSize (example_workspace 1200 1200 Source)
            = \<lparr>width = 1200, height = 1200\<rparr>"
    and n: "newLeafId (example_workspace 1200 1200 Source) = 2"
    by (simp_all add: example_defs plugin_defs)
  show ?thesis
    using h1 h2 sz n example_splits [of 1200 1200 Source]
      C2_auto_direction_by_aspect [of "settings (onload None)" 1200 1200 "onload None"
        example_platform "Some ''a.md''" "example_workspace 1200 1200 Source" "onload12 None"]
      C2_auto_direction_by_aspect [of "settings (onload None)" 1199 1200 "onload None"
        example_platform "Some ''a.md''" "example_workspace 1200 1200 Source" "onload12 None"]
    by simp
qed

text \<open>
  Claim C3, as stated, fails for a view that has no mode. Release 1.1.0 does not test the type
  of the active view: with an image in the only pane, the handler splits, the original pane
  still has no mode and the new pane is opened in preview mode, so the two panes are not an
  editor and a preview.
\<close>

theorem C3_view_without_mode_gets_preview_pane:
  "layout example_image = [1]
   \<and> layout (snd (fileOpen example_platform (Some ''a.png'') (onload None, example_image)))
       = [1, 2]
   \<and> mode (getViewState (snd (fileOpen example_platform (Some ''a.png'')
        (onload None, example_image))) 1) = None
   \<and> mode (getViewState (snd (fileOpen example_platform (Some ''a.png'')
        (onload None, example_image))) 2) = Some Preview
   \<and> \<not> complementary
        (mode (getViewState (snd (fileOpen example_platform (Some ''a.png'')
           (onload None, example_image))) 1))
        (mode (getViewState (snd (fileOpen example_platform (Some ''a.png'')
           (onload None, example_image))) 2))"
  by (simp add: image_defs complementary_def)

text \<open>
  Claim C3, amended. For every split performed, by the automatic path of either release or by
  the manual command: the original pane keeps its view state, and the new pane is opened in
  source mode when the original is in preview mode and in preview mode otherwise. So when the
  original pane shows the editor or the preview, the two panes show complementary modes.
\<close>

theorem C3_new_pane_mode_is_complement:
  assumes act: "activeLeaf ws = Some l" and inl: "l \<in> set (layout ws)"
  shows "(layout (snd (fileOpen plat fileArg (p, ws))) \<noteq> layout ws \<longrightarrow>
            getViewState (snd (fileOpen plat fileArg (p, ws))) l = getViewState ws l
            \<and> mode (getViewState (snd (fileOpen plat fileArg (p, ws))) (newLeafId ws))
                = Some (if mode (getViewState ws l) = Some Preview then Source else Preview)
            \<and> (mode (getViewState ws l) \<noteq> None \<longrightarrow>
                 complementary (mode (getViewState ws l))
                   (mode (getViewState (snd (fileOpen plat fileArg (p, ws))) (newLeafId ws)))))
       \<and> (layout (snd (fileOpen12_state plat fileArg (q, ws))) \<noteq> layout ws \<longrightarrow>
            getViewState (snd (fileOpen12_state plat fileArg (q, ws))) l = getViewState ws l
            \<and> mode (getViewState (snd (fileOpen12_state plat fileArg (q, ws))) (newLeafId ws))
                = Some (if mode (getViewState ws l) = Some Preview then Source else Preview)
            \<and> (mode (getViewState ws l) \<noteq> None \<longrightarrow>
                 complementary (mode (getViewState ws l))
                   (mode (getViewState (snd (fileOpen12_state plat fileArg (q, ws)))
                      (newLeafId ws)))))
       \<and> (layout (snd (checkCallback plat q checking ws)) \<noteq> layout ws \<longrightarrow>
            getViewState (snd (checkCallback plat q checking ws)) l = getViewState ws l
            \<and> mode (getViewState (snd (checkCallback plat q checking ws)) (newLeafId ws))
                = Some (if mode (getViewState ws l) = Some Preview then Source else Preview)
            \<and> (mode (getViewState ws l) \<noteq> None \<longrightarrow>
                 complementary (mode (getViewState ws l))
                   (mode (getViewState (snd (checkCallback plat q checking ws))
                      (newLeafId ws)))))"
proof -
  have t: "Some (toggleMode m) = Some (if m = Some Preview then Source else Preview)" for m
    by (simp add: toggleMode_def)
  have c: "m \<noteq> None \<longrightarrow> complementary m (Some (toggleMode m))" for m
    by (simp add: toggleMode_complementary)
  have a: "getViewState (snd (fileOpen plat fileArg (p, ws))) l = getViewState ws l
      \<and> mode (getViewState (snd (fileOpen plat fileArg (p, ws))) (newLeafId ws))
          = Some (toggleMode (mode (getViewState ws l)))"
    if s: "layout (snd (fileOpen plat fileArg (p, ws))) \<noteq> layout ws"
    using fileOpen_modes [OF s act inl] by simp
  have b: "getViewState (snd (fileOpen12_state plat fileArg (q, ws))) l = getViewState ws l
      \<and> mode (getViewState (snd (fileOpen12_state plat fileArg (q, ws))) (newLeafId ws))
          = Some (toggleMode (mode (getViewState ws l)))"
    if s: "layout (snd (fileOpen12_state plat fileArg (q, ws))) \<noteq> layout ws"
  proof -
    note f = fileOpen12_split_facts [OF s]
    have g: "getActiveViewOfType_MarkdownView ws = Some l"
      by (rule activeMarkdown_is_activeLeaf [OF act f(2)])
    show ?thesis by (simp add: f(1) splitActiveFile_modes [OF g f(3) inl])
  qed
  have d: "getViewState (snd (checkCallback plat q checking ws)) l = getViewState ws l
      \<and> mode (getViewState (snd (checkCallback plat q checking ws)) (newLeafId ws))
          = Some (toggleMode (mode (getViewState ws l)))"
    if s: "layout (snd (checkCallback plat q checking ws)) \<noteq> layout ws"
  proof -
    note f = checkCallback_split_facts [OF s]
    have g: "getActiveViewOfType_MarkdownView ws = Some l"
      by (rule activeMarkdown_is_activeLeaf [OF act f(2)])
    show ?thesis by (simp add: f(1) splitActiveFile_modes [OF g f(3) inl])
  qed
  show ?thesis
    using a b d c [of "mode (getViewState ws l)"] by (simp add: t)
qed

theorem C3_new_pane_mode_is_complement_witness:
  "activeLeaf (example_workspace 1200 1200 Source) = Some 1
   \<and> 1 \<in> set (layout (example_workspace 1200 1200 Source))
   \<and> mode (getViewState (example_workspace 1200 1200 Source) 1) = Some Source
   \<and> layout (snd (fileOpen example_platform (Some ''a.md'')
        (onload None, example_workspace 1200 1200 Source)))
       \<noteq> layout (example_workspace 1200 1200 Source)
   \<and> mode (getViewState (snd (fileOpen example_platform (Some ''a.md'')
        (onload None, example_workspace 1200 1200 Source))) 1) = Some Source
   \<and> mode (getViewState (snd (fileOpen example_platform (Some ''a.md'')
        (onload None, example_workspace 1200 1200 Source))) 2) = Some Preview
   \<and> layout (snd (fileOpen12_state example_platform (Some ''a.md'')
        (onload12 None, example_workspace 1200 1200 Source)))
       \<noteq> layout (example_workspace 1200 1200 Source)
   \<and> mode (getViewState (snd (fileOpen12_state example_platform (Some ''a.md'')
        (onload12 None, example_workspace 1200 1200 Source))) 2) = Some Preview
   \<and> layout (snd (checkCallback example_platform (onload12 None) False
        (example_workspace 1200 1200 Source)))
       \<noteq> layout (example_workspace 1200 1200 Source)
   \<and> mode (getViewState (snd (checkCallback example_platform (onload12 None) False
        (example_workspace 1200 1200 Source))) 2) = Some Preview"
proof -
  note h = example_workspace_facts [of 1200 1200 Source]
  show ?thesis
    using h(1-4) example_splits [of 1200 1200 Source]
      C3_new_pane_mode_is_complement [OF h(1) h(2), of example_platform "Some ''a.md''"
        "onload None" "onload12 None" False]
    by (simp add: complementary_def)
qed

text \<open>
  Claim C4, as stated, fails: the flag is refreshed only when the enumeration of leaves
  returns. Here the layout becomes ready with one note open while the enumeration throws, so
  the flag stays false; the next \<^verbatim>\<open>file-open\<close> event then splits although a note view
  was open before it, in both releases.
\<close>

theorem C4_stale_flag_splits_with_note_open:
  "leavesOfType (snd (run example_platform [] (start None example_throwing))) ''markdown'' = [1]
   \<and> layout (example_workspace 1200 800 Source) = [1]
   \<and> layout (snd (fileOpen example_platform (Some ''b.md'')
        (fst (run example_platform [] (start None example_throwing)),
         example_workspace 1200 800 Source))) = [1, 2]
   \<and> leavesOfType (snd (run12 example_platform [] (start12 None example_throwing))) ''markdown''
       = [1]
   \<and> layout (snd (fileOpen12_state example_platform (Some ''b.md'')
        (fst (run12 example_platform [] (start12 None example_throwing)),
         example_workspace 1200 800 Source))) = [1, 2]"
  by (simp add: run_defs)

text \<open>
  Claim C4, amended. An automatic split fires only when the flag \<open>hasOpenFiles\<close> is false
  at the event. In every state a run of the plugin reaches in which the enumeration of leaves
  works and finds at least one markdown view, the next \<^verbatim>\<open>file-open\<close> event changes
  nothing in the workspace, whatever file it announces and whatever the workspace looks like
  then.
\<close>

theorem C4_no_auto_split_while_flag_records_open_note:
  "(layout (snd (fileOpen plat fileArg (p, ws))) \<noteq> layout ws \<longrightarrow> \<not> hasOpenFiles p)
   \<and> (layout (snd (fileOpen12_state plat fileArg (q, ws))) \<noteq> layout ws \<longrightarrow> \<not> hasOpenFiles q)
   \<and> (\<not> leavesQueryThrows (snd (run plat evs (start loaded ws0)))
       \<and> leavesOfType (snd (run plat evs (start loaded ws0))) ''markdown'' \<noteq> [] \<longrightarrow>
       snd (fileOpen plat fileArg (fst (run plat evs (start loaded ws0)), ws)) = ws)
   \<and> (\<not> leavesQueryThrows (snd (run12 plat evs (start12 loaded ws0)))
       \<and> leavesOfType (snd (run12 plat evs (start12 loaded ws0))) ''markdown'' \<noteq> [] \<longrightarrow>
       snd (fileOpen12_state plat fileArg (fst (run12 plat evs (start12 loaded ws0)), ws)) = ws)"
proof (intro conjI impI)
  assume "layout (snd (fileOpen plat fileArg (p, ws))) \<noteq> layout ws"
  then show "\<not> hasOpenFiles p"
    by (simp add: fileOpen_split_iff autoSplitChecks_def)
next
  assume "layout (snd (fileOpen12_state plat fileArg (q, ws))) \<noteq> layout ws"
  then show "\<not> hasOpenFiles q"
    by (rule fileOpen12_split_facts(4))
next
  assume a: "\<not> leavesQueryThrows (snd (run plat evs (start loaded ws0)))
       \<and> leavesOfType (snd (run plat evs (start loaded ws0))) ''markdown'' \<noteq> []"
  then have "hasOpenFiles (fst (run plat evs (start loaded ws0)))"
    by (simp add: run_flag)
  then show "snd (fileOpen plat fileArg (fst (run plat evs (start loaded ws0)), ws)) = ws"
    by (simp add: fileOpen_noop autoSplitChecks_def)
next
  assume a: "\<not> leavesQueryThrows (snd (run12 plat evs (start12 loaded ws0)))
       \<and> leavesOfType (snd (run12 plat evs (start12 loaded ws0))) ''markdown'' \<noteq> []"
  then have "hasOpenFiles (fst (run12 plat evs (start12 loaded ws0)))"
    by (simp add: run12_flag)
  then show "snd (fileOpen12_state plat fileArg (fst (run12 plat evs (start12 loaded ws0)), ws))
             = ws"
    by (simp add: fileOpen12_state_snd)
qed

theorem C4_no_auto_split_while_flag_records_open_note_witness:
  "layout (snd (fileOpen example_platform (Some ''a.md'')
      (onload None, example_workspace 1200 800 Source))) \<noteq> layout (example_workspace 1200 800 Source)
   \<and> \<not> hasOpenFiles (onload None)
   \<and> layout (snd (fileOpen12_state example_platform (Some ''a.md'')
      (onload12 None, example_workspace 1200 800 Source))) \<noteq> layout (example_workspace 1200 800 Source)
   \<and> \<not> hasOpenFiles (onload12 None)
   \<and> \<not> leavesQueryThrows (snd (run example_platform
        [(Some ''a.md'', example_workspace 1200 800 Source)] (start None example_empty)))
   \<and> leavesOfType (snd (run example_platform
        [(Some ''a.md'', example_workspace 1200 800 Source)] (start None example_empty)))
        ''markdown'' = [1, 2]
   \<and> snd (fileOpen example_platform (Some ''b.md'')
        (fst (run example_platform [(Some ''a.md'', example_workspace 1200 800 Source)]
           (start None example_empty)), example_workspace 1200 800 Preview))
       = example_workspace 1200 800 Preview
   \<and> \<not> leavesQueryThrows (snd (run12 example_platform
        [(Some ''a.md'', example_workspace 1200 800 Source)] (start12 None example_empty)))
   \<and> leavesOfType (snd (run12 example_platform
        [(Some ''a.md'', example_workspace 1200 800 Source)] (start12 None example_empty)))
        ''markdown'' = [1, 2]
   \<and> snd (fileOpen12_state example_platform (Some ''b.md'')
        (fst (run12 example_platform [(Some ''a.md'', example_workspace 1200 800 Source)]
           (start12 None example_empty)), example_workspace 1200 800 Preview))
       = example_workspace 1200 800 Preview"
proof -
  have s: "(1000::int) < (if (1200::int) \<ge> 800 then 1200 else 800)" by simp
  show ?thesis
    using example_splits(1,2) [OF s, of Source] example_run(2,3,6,7)
      C4_no_auto_split_while_flag_records_open_note [of example_platform "Some ''a.md''"
        "onload None" "example_workspace 1200 800 Source" "onload12 None"
        "[(Some ''a.md'', example_workspace 1200 800 Source)]" None example_empty]
      C4_no_auto_split_while_flag_records_open_note [of example_platform "Some ''b.md''"
        "onload None" "example_workspace 1200 800 Preview" "onload12 None"
        "[(Some ''a.md'', example_workspace 1200 800 Source)]" None example_empty]
    by simp
qed

text \<open>
  Claim C5, as stated, fails for a partial \<^verbatim>\<open>enabledOn\<close> object: the merge is one level
  deep. A blob whose \<^verbatim>\<open>enabledOn\<close> has only \<^verbatim>\<open>desktop\<close> is loaded with \<^verbatim>\<open>mobile\<close>
  absent, not with its default, and the plugin then counts as disabled on mobile.
\<close>

theorem C5_partial_enabledOn_not_completed:
  "mobile (enabledOn DEFAULT_SETTINGS) = Some True
   \<and> mobile (enabledOn (loadSettings (Some example_partial))) = None
   \<and> isEnabledOnPlatform example_mobile DEFAULT_SETTINGS
   \<and> \<not> isEnabledOnPlatform example_mobile (loadSettings (Some example_partial))"
  by (simp add: loadSettings_def example_partial_def example_mobile_def orDefault_def
      DEFAULT_SETTINGS_def isEnabledOnPlatform_def)

text \<open>
  Claim C5, amended. Saving the settings record and loading it again gives the same record, in
  both releases. Without a blob the defaults are loaded. With a blob, every top-level field the
  blob has is taken from it and every top-level field it omits is taken from the defaults;
  \<^verbatim>\<open>enabledOn\<close> is such a field and is taken as a whole.
\<close>

theorem C5_settings_round_trip_and_shallow_defaults:
  "loadSettings (Some (saveSettings s)) = s
   \<and> loadSettings12 (Some (saveSettings12 s12)) = s12
   \<and> loadSettings None = DEFAULT_SETTINGS
   \<and> loadSettings12 None = DEFAULT_SETTINGS12
   \<and> minSize (loadSettings (Some d))
       = (case data_minSize d of Some v \<Rightarrow> v | None \<Rightarrow> minSize DEFAULT_SETTINGS)
   \<and> direction (loadSettings (Some d))
       = (case data_direction d of Some v \<Rightarrow> v | None \<Rightarrow> direction DEFAULT_SETTINGS)
   \<and> editorFirst (loadSettings (Some d))
       = (case data_editorFirst d of Some v \<Rightarrow> v | None \<Rightarrow> editorFirst DEFAULT_SETTINGS)
   \<and> paneToFocus (loadSettings (Some d))
       = (case data_paneToFocus d of Some v \<Rightarrow> v | None \<Rightarrow> paneToFocus DEFAULT_SETTINGS)
   \<and> linkPanes (loadSettings (Some d))
       = (case data_linkPanes d of Some v \<Rightarrow> v | None \<Rightarrow> linkPanes DEFAULT_SETTINGS)
   \<and> enabledOn (loadSettings (Some d))
       = (case data_enabledOn d of Some v \<Rightarrow> v | None \<Rightarrow> enabledOn DEFAULT_SETTINGS)
   \<and> minSize (loadSettings12 (Some d))
       = (case data_minSize d of Some v \<Rightarrow> v | None \<Rightarrow> minSize DEFAULT_SETTINGS12)
   \<and> direction (loadSettings12 (Some d))
       = (case data_direction d of Some v \<Rightarrow> v | None \<Rightarrow> direction DEFAULT_SETTINGS12)
   \<and> editorFirst (loadSettings12 (Some d))
       = (case data_editorFirst d of Some v \<Rightarrow> v | None \<Rightarrow> editorFirst DEFAULT_SETTINGS12)
   \<and> paneToFocus (loadSettings12 (Some d))
       = (case data_paneToFocus d of Some v \<Rightarrow> v | None \<Rightarrow> paneToFocus DEFAULT_SETTINGS12)
   \<and> linkPanes (loadSettings12 (Some d))
       = (case data_linkPanes d of Some v \<Rightarrow> v | None \<Rightarrow> linkPanes DEFAULT_SETTINGS12)
   \<and> autoSplit (loadSettings12 (Some d))
       = (case data_autoSplit d of Some v \<Rightarrow> v | None \<Rightarrow> autoSplit DEFAULT_SETTINGS12)"
  by (simp add: loadSettings_def loadSettings12_def saveSettings_def saveSettings12_def
      orDefault_def)

text \<open>
  Claim C6, as stated, fails for a view that has no mode. With \<open>editorFirst\<close> set and an
  image in the only pane, the handler of release 1.1.0 splits, the new pane is a preview
  pane, and the pane in the leading position is the original one, which shows no editor.
\<close>

theorem C6_view_without_mode_leads_when_editorFirst:
  "editorFirst (settings (onload None))
   \<and> layout example_image = [1]
   \<and> layout (snd (fileOpen example_platform (Some ''a.png'') (onload None, example_image)))
       = [1, 2]
   \<and> mode (getViewState (snd (fileOpen example_platform (Some ''a.png'')
        (onload None, example_image))) 2) = Some Preview
   \<and> leadingMode (snd (fileOpen example_platform (Some ''a.png'')
        (onload None, example_image))) 1 2 = None"
  by (simp add: image_defs leadingMode_def)

text \<open>
  Claim C6, amended. For every automatic split, in either release, of an active pane \<open>l\<close>
  that shows the editor or the preview: of the two panes, the one that comes first in the
  layout shows the editor when \<open>editorFirst\<close> is set and the preview when it is not. When
  \<open>editorFirst\<close> is not set, the preview pane also leads after the split of a pane without
  a mode. The direction of the split does not occur in the statement: it holds for vertical
  and horizontal splits.
\<close>

theorem C6_editorFirst_decides_leading_pane:
  assumes act: "activeLeaf ws = Some l" and inl: "l \<in> set (layout ws)"
  shows "(layout (snd (fileOpen plat fileArg (p, ws))) \<noteq> layout ws
          \<and> (mode (getViewState ws l) \<noteq> None \<or> \<not> editorFirst (settings p)) \<longrightarrow>
            leadingMode (snd (fileOpen plat fileArg (p, ws))) l (newLeafId ws)
              = Some (if editorFirst (settings p) then Source else Preview))
       \<and> (layout (snd (fileOpen12_state plat fileArg (q, ws))) \<noteq> layout ws
          \<and> (mode (getViewState ws l) \<noteq> None \<or> \<not> editorFirst (settings q)) \<longrightarrow>
            leadingMode (snd (fileOpen12_state plat fileArg (q, ws))) l (newLeafId ws)
              = Some (if editorFirst (settings q) then Source else Preview))"
proof (intro conjI impI)
  assume sm: "layout (snd (fileOpen plat fileArg (p, ws))) \<noteq> layout ws
          \<and> (mode (getViewState ws l) \<noteq> None \<or> \<not> editorFirst (settings p))"
  then have s: "layout (snd (fileOpen plat fileArg (p, ws))) \<noteq> layout ws"
    and m: "mode (getViewState ws l) \<noteq> None \<or> \<not> editorFirst (settings p)" by simp_all
  note f = fileOpen_split_facts [OF s]
  show "leadingMode (snd (fileOpen plat fileArg (p, ws))) l (newLeafId ws)
          = Some (if editorFirst (settings p) then Source else Preview)"
    by (rule leadingMode_after_split_any [OF fileOpen_layout [OF f act] inl
          fileOpen_modes [OF s act inl] refl m])
next
  assume sm: "layout (snd (fileOpen12_state plat fileArg (q, ws))) \<noteq> layout ws
          \<and> (mode (getViewState ws l) \<noteq> None \<or> \<not> editorFirst (settings q))"
  then have s: "layout (snd (fileOpen12_state plat fileArg (q, ws))) \<noteq> layout ws"
    and m: "mode (getViewState ws l) \<noteq> None \<or> \<not> editorFirst (settings q)" by simp_all
  note f = fileOpen12_split_facts [OF s]
  have a: "getActiveViewOfType_MarkdownView ws = Some l"
    by (rule activeMarkdown_is_activeLeaf [OF act f(2)])
  have "leadingMode (splitActiveFile q (the fileArg) True ws) l (newLeafId ws)
          = Some (if editorFirst (settings q) then Source else Preview)"
    by (rule leadingMode_after_split_any [OF splitActiveFile_layout [OF a f(3)] inl
          splitActiveFile_modes [OF a f(3) inl] _ m]) simp
  then show "leadingMode (snd (fileOpen12_state plat fileArg (q, ws))) l (newLeafId ws)
          = Some (if editorFirst (settings q) then Source else Preview)"
    by (simp add: f(1))
qed

theorem C6_editorFirst_decides_leading_pane_witness:
  "activeLeaf (example_workspace 800 1200 Preview) = Some 1
   \<and> 1 \<in> set (layout (example_workspace 800 1200 Preview))
   \<and> mode (getViewState (example_workspace 800 1200 Preview) 1) = Some Preview
   \<and> editorFirst (settings (onload None)) \<and> editorFirst (settings (onload12 None))
   \<and> layout (snd (fileOpen example_platform (Some ''a.md'')
        (onload None, example_workspace 800 1200 Preview)))
       \<noteq> layout (example_workspace 800 1200 Preview)
   \<and> leadingMode (snd (fileOpen example_platform (Some ''a.md'')
        (onload None, example_workspace 800 1200 Preview))) 1 2 = Some Source
   \<and> layout (snd (fileOpen12_state example_platform (Some ''a.md'')
        (onload12 None, example_workspace 800 1200 Preview)))
       \<noteq> layout (example_workspace 800 1200 Preview)
   \<and> leadingMode (snd (fileOpen12_state example_platform (Some ''a.md'')
        (onload12 None, example_workspace 800 1200 Preview))) 1 2 = Some Source"
proof -
  note h = example_workspace_facts [of 800 1200 Preview]
  have e: "editorFirst (settings (onload None))" "editorFirst (settings (onload12 None))"
    by (simp_all add: example_defs)
  have s: "(1000::int) < (if (800::int) \<ge> 1200 then 800 else 1200)" by simp
  show ?thesis
    using h(1-4) e example_splits(1,2) [OF s, of Preview]
      C6_editorFirst_decides_leading_pane [OF h(1) h(2), of example_platform "Some ''a.md''"
        "onload None" "onload12 None"]
    by simp
qed




text \<open>
  Claim C8, as stated, fails for a split made by the command: with \<open>linkPanes\<close> off, the
  command of release 1.2 splits and still registers the two panes as a group.
\<close>

theorem C8_manual_split_links_without_linkPanes:
  "\<not> linkPanes (settings (onload12 (Some example_unlinked)))
   \<and> layout (snd (checkCallback example_platform (onload12 (Some example_unlinked)) False
        (example_workspace 1200 800 Source))) = [1, 2]
   \<and> groups (snd (checkCallback example_platform (onload12 (Some example_unlinked)) False
        (example_workspace 1200 800 Source))) = [(1, 2)]"
  by (simp add: checkCallback_def splitActiveFile_def example_unlinked_def orDefault_def
      example_defs plugin_defs host_defs Let_def)

text \<open>
  Claim C8, amended. Every split creates one new pane. An automatic split, in either release,
  registers the original and the new pane as a group if and only if \<open>linkPanes\<close> is set,
  and leaves the groups as they were otherwise; a split made by the command always registers
  them.
\<close>

theorem C8_linkPanes_decides_grouping_when_automatic:
  assumes act: "activeLeaf ws = Some l"
  shows "(layout (snd (fileOpen plat fileArg (p, ws))) \<noteq> layout ws \<longrightarrow>
            length (layout (snd (fileOpen plat fileArg (p, ws)))) = Suc (length (layout ws))
            \<and> groups (snd (fileOpen plat fileArg (p, ws)))
                = (if linkPanes (settings p) then groups ws @ [(l, newLeafId ws)] else groups ws))
       \<and> (layout (snd (fileOpen12_state plat fileArg (q, ws))) \<noteq> layout ws \<longrightarrow>
            length (layout (snd (fileOpen12_state plat fileArg (q, ws)))) = Suc (length (layout ws))
            \<and> groups (snd (fileOpen12_state plat fileArg (q, ws)))
                = (if linkPanes (settings q) then groups ws @ [(l, newLeafId ws)] else groups ws))
       \<and> (layout (snd (checkCallback plat q checking ws)) \<noteq> layout ws \<longrightarrow>
            length (layout (snd (checkCallback plat q checking ws))) = Suc (length (layout ws))
            \<and> groups (snd (checkCallback plat q checking ws)) = groups ws @ [(l, newLeafId ws)])"
proof (intro conjI impI)
  assume s: "layout (snd (fileOpen plat fileArg (p, ws))) \<noteq> layout ws"
  note f = fileOpen_split_facts [OF s]
  show "length (layout (snd (fileOpen plat fileArg (p, ws)))) = Suc (length (layout ws))"
    by (simp add: fileOpen_layout [OF f act] insertBeside_length)
  show "groups (snd (fileOpen plat fileArg (p, ws)))
          = (if linkPanes (settings p) then groups ws @ [(l, newLeafId ws)] else groups ws)"
    by (rule fileOpen_groups [OF f act])
next
  assume s: "layout (snd (fileOpen12_state plat fileArg (q, ws))) \<noteq> layout ws"
  note f = fileOpen12_split_facts [OF s]
  have g: "getActiveViewOfType_MarkdownView ws = Some l"
    by (rule activeMarkdown_is_activeLeaf [OF act f(2)])
  show "length (layout (snd (fileOpen12_state plat fileArg (q, ws)))) = Suc (length (layout ws))"
    by (simp add: f(1) splitActiveFile_layout [OF g f(3)] insertBeside_length)
  show "groups (snd (fileOpen12_state plat fileArg (q, ws)))
          = (if linkPanes (settings q) then groups ws @ [(l, newLeafId ws)] else groups ws)"
    by (simp add: f(1) splitActiveFile_groups [OF g f(3)])
next
  assume s: "layout (snd (checkCallback plat q checking ws)) \<noteq> layout ws"
  note f = checkCallback_split_facts [OF s]
  have g: "getActiveViewOfType_MarkdownView ws = Some l"
    by (rule activeMarkdown_is_activeLeaf [OF act f(2)])
  show "length (layout (snd (checkCallback plat q checking ws))) = Suc (length (layout ws))"
    by (simp add: f(1) splitActiveFile_layout [OF g f(3)] insertBeside_length)
  show "groups (snd (checkCallback plat q checking ws)) = groups ws @ [(l, newLeafId ws)]"
    by (simp add: f(1) splitActiveFile_groups [OF g f(3)])
qed

theorem C8_linkPanes_decides_grouping_when_automatic_witness:
  "activeLeaf (example_workspace 1200 800 Source) = Some 1
   \<and> \<not> linkPanes (settings (onload (Some example_unlinked)))
   \<and> \<not> linkPanes (settings (onload12 (Some example_unlinked)))
   \<and> layout (snd (fileOpen example_platform (Some ''a.md'')
        (onload (Some example_unlinked), example_workspace 1200 800 Source)))
       \<noteq> layout (example_workspace 1200 800 Source)
   \<and> length (layout (snd (fileOpen example_platform (Some ''a.md'')
        (onload (Some example_unlinked), example_workspace 1200 800 Source)))) = 2
   \<and> groups (snd (fileOpen example_platform (Some ''a.md'')
        (onload (Some example_unlinked), example_workspace 1200 800 Source))) = []
   \<and> layout (snd (fileOpen12_state example_platform (Some ''a.md'')
        (onload12 (Some example_unlinked), example_workspace 1200 800 Source)))
       \<noteq> layout (example_workspace 1200 800 Source)
   \<and> groups (snd (fileOpen12_state example_platform (Some ''a.md'')
        (onload12 (Some example_unlinked), example_workspace 1200 800 Source))) = []
   \<and> layout (snd (checkCallback example_platform (onload12 (Some example_unlinked)) False
        (example_workspace 1200 800 Source)))
       \<noteq> layout (example_workspace 1200 800 Source)
   \<and> groups (snd (checkCallback example_platform (onload12 (Some example_unlinked)) False
        (example_workspace 1200 800 Source))) = [(1, 2)]"
proof -
  note h = example_workspace_facts [of 1200 800 Source]
  have e: "\<not> linkPanes (settings (onload (Some example_unlinked)))"
    "\<not> linkPanes (settings (onload12 (Some example_unlinked)))"
    by (simp_all add: example_unlinked_def orDefault_def example_defs)
  have s: "(1000::int) < (if (1200::int) \<ge> 800 then 1200 else 800)" by simp
  have len: "length (layout (example_workspace 1200 800 Source)) = 1"
    by (simp add: example_defs)
  show ?thesis
    using h(1,4,6) e len example_unlinked_splits [OF s, of Source]
      C8_linkPanes_decides_grouping_when_automatic [OF h(1), of example_platform
        "Some ''a.md''" "onload (Some example_unlinked)" "onload12 (Some example_unlinked)" False]
    by simp
qed

text \<open>
  Claim C9. If the host's enumeration of the open note views throws while the flag is being
  refreshed, \<open>updateHasOpenFiles\<close> returns normally and leaves the plugin as it was; the
  flag \<open>hasOpenFiles\<close> therefore keeps its previous value, also at the end of the
  \<^verbatim>\<open>file-open\<close> handler of either release.
\<close>

theorem C9_failed_refresh_keeps_flag:
  assumes "getLeavesOfType ws ''markdown'' = Inl e"
  shows "updateHasOpenFiles ws p = p
       \<and> hasOpenFiles (fst (fileOpen plat fileArg (p1, ws))) = hasOpenFiles p1
       \<and> hasOpenFiles (fst (fileOpen12_state plat fileArg (p2, ws))) = hasOpenFiles p2"
proof -
  from assms have throws: "leavesQueryThrows ws"
    by (simp add: getLeavesOfType_def split: if_splits)
  have keep: "\<And>ws' q. leavesQueryThrows ws' \<Longrightarrow> updateHasOpenFiles ws' q = q"
    by (simp add: updateHasOpenFiles_def getLeavesOfType_def)
  have a: "updateHasOpenFiles ws p = p" using throws by (rule keep)
  have "leavesQueryThrows (snd (fileOpen plat fileArg (p1, ws)))"
    using throws by (simp add: fileOpen_others)
  then have b: "fst (fileOpen plat fileArg (p1, ws)) = p1"
    by (simp add: fileOpen_fst keep)
  have c: "fst (fileOpen12_state plat fileArg (p2, ws)) = p2"
    using throws
    by (simp add: fileOpen12_state_def fileOpen12_def getLeavesOfType_def updateHasOpenFiles_def)
  from a b c show ?thesis by simp
qed

theorem C9_failed_refresh_keeps_flag_witness:
  "getLeavesOfType ((example_workspace 1200 800 Source)\<lparr>leavesQueryThrows := True\<rparr>) ''markdown''
     = Inl QueryFailed
   \<and> updateHasOpenFiles ((example_workspace 1200 800 Source)\<lparr>leavesQueryThrows := True\<rparr>)
        ((onload None)\<lparr>hasOpenFiles := True\<rparr>) = (onload None)\<lparr>hasOpenFiles := True\<rparr>
   \<and> hasOpenFiles (fst (fileOpen example_platform (Some ''a.md'')
        (onload None, (example_workspace 1200 800 Source)\<lparr>leavesQueryThrows := True\<rparr>))) = False
   \<and> hasOpenFiles (fst (fileOpen12_state example_platform (Some ''a.md'')
        (onload12 None, (example_workspace 1200 800 Source)\<lparr>leavesQueryThrows := True\<rparr>))) = False"
proof -
  have h: "getLeavesOfType ((example_workspace 1200 800 Source)\<lparr>leavesQueryThrows := True\<rparr>)
             ''markdown'' = Inl QueryFailed"
    by (simp add: getLeavesOfType_def)
  show ?thesis
    using h
      C9_failed_refresh_keeps_flag [OF h, of "(onload None)\<lparr>hasOpenFiles := True\<rparr>"
        example_platform "Some ''a.md''" "onload None" "onload12 None"]
    by (simp add: onload_def onload12_def)
qed

text \<open>
  Claim C10. The command "Split and link current pane", where it is available (not on a
  phone, with a file in the active editor), returns normally and goes through the same gate
  as the automatic path. The main area is the root container when there is one and the window
  otherwise; the split is vertical when the configured direction is vertical, or is
  \<^verbatim>\<open>auto\<close> with a main area at least as wide as it is high, and horizontal otherwise; the
  compared dimension is the width for a vertical split and the height for a horizontal one.
  The command splits if and only if the active leaf shows a markdown view and the compared
  dimension is strictly greater than \<open>minSize\<close>, it changes nothing when the dimension is
  not greater, and it splits in that direction; gate and direction are those of
  \<open>splitActiveFile\<close> called by the automatic path. The settings \<open>editorFirst\<close>,
  \<open>paneToFocus\<close> and \<open>linkPanes\<close> have no effect on it.
\<close>

theorem C10_manual_command_same_gate_and_direction:
  fixes ws :: Workspace and q :: "AutoSplitSettings12 AutoSplitPlugin"
    and area :: Size and vertical :: bool and dim :: int
  defines "area \<equiv> (case rootContainer ws of Some c \<Rightarrow> c | None \<Rightarrow> window ws)"
    and "vertical \<equiv> (direction (settings q) = Vertical
                       \<or> (direction (settings q) = Auto \<and> width area \<ge> height area))"
    and "dim \<equiv> (if vertical then width area else height area)"
  assumes plat: "\<not> isPhone plat" and edf: "activeEditorFile ws = Some f"
  shows "fst (checkCallback plat q False ws)
       \<and> (layout (snd (checkCallback plat q False ws)) \<noteq> layout ws)
           = ((case activeLeaf ws of
                 None \<Rightarrow> False
               | Some l \<Rightarrow> viewType (viewState (leafData ws l)) = ''markdown'')
              \<and> dim > minSize (settings q))
       \<and> (\<not> dim > minSize (settings q) \<longrightarrow> snd (checkCallback plat q False ws) = ws)
       \<and> (layout (snd (checkCallback plat q False ws)) \<noteq> layout ws \<longrightarrow>
            splitDirection (leafData (snd (checkCallback plat q False ws)) (newLeafId ws))
              = Some (if vertical then Vertical else Horizontal))
       \<and> (layout (splitActiveFile q f True ws) \<noteq> layout ws)
           = (layout (snd (checkCallback plat q False ws)) \<noteq> layout ws)
       \<and> splitDirection (leafData (splitActiveFile q f True ws) (newLeafId ws))
           = splitDirection (leafData (snd (checkCallback plat q False ws)) (newLeafId ws))
       \<and> checkCallback plat (q\<lparr>settings := (settings q)\<lparr>editorFirst := e, paneToFocus := t,
             linkPanes := k\<rparr>\<rparr>) False ws = checkCallback plat q False ws"
proof -
  have cd: "comparedDimension (settings q) ws = dim"
    unfolding dim_def vertical_def area_def by (rule comparedDimension_explicit)
  have rd: "resolveDirection (settings q) (getRootContainerSize ws)
              = (if vertical then Vertical else Horizontal)"
    unfolding vertical_def area_def by (rule resolveDirection_explicit)
  have run: "checkCallback plat q' False ws = (True, splitActiveFile q' f False ws)" for q'
    using plat edf by (simp add: checkCallback_def)
  have dir: "splitDirection (leafData (splitActiveFile q f a ws) (newLeafId ws))
              = (if getActiveViewOfType_MarkdownView ws \<noteq> None
                    \<and> comparedDimension (settings q) ws > minSize (settings q)
                 then Some (resolveDirection (settings q) (getRootContainerSize ws))
                 else splitDirection (leafData ws (newLeafId ws)))" for a
  proof (cases "getActiveViewOfType_MarkdownView ws \<noteq> None
                    \<and> comparedDimension (settings q) ws > minSize (settings q)")
    case True
    then have "layout (splitActiveFile q f a ws) \<noteq> layout ws"
      by (simp add: splitActiveFile_split_iff)
    from splitActiveFile_splitDirection [OF this] True show ?thesis by simp
  next
    case False
    then show ?thesis using splitActiveFile_noop [OF False] by auto
  qed
  have "fst (checkCallback plat q False ws)" by (simp add: run)
  moreover have "(layout (snd (checkCallback plat q False ws)) \<noteq> layout ws)
           = ((case activeLeaf ws of
                 None \<Rightarrow> False
               | Some l \<Rightarrow> viewType (viewState (leafData ws l)) = ''markdown'')
              \<and> dim > minSize (settings q))"
    using activeMarkdown_explicit [of ws] by (simp add: run splitActiveFile_split_iff cd)
  moreover have "\<not> dim > minSize (settings q) \<longrightarrow> snd (checkCallback plat q False ws) = ws"
    by (simp add: run splitActiveFile_noop cd)
  moreover have "layout (snd (checkCallback plat q False ws)) \<noteq> layout ws \<longrightarrow>
            splitDirection (leafData (snd (checkCallback plat q False ws)) (newLeafId ws))
              = Some (if vertical then Vertical else Horizontal)"
    using rd by (simp add: run splitActiveFile_splitDirection)
  moreover have "(layout (splitActiveFile q f True ws) \<noteq> layout ws)
           = (layout (snd (checkCallback plat q False ws)) \<noteq> layout ws)"
    by (simp add: run splitActiveFile_split_iff)
  moreover have "splitDirection (leafData (splitActiveFile q f True ws) (newLeafId ws))
           = splitDirection (leafData (snd (checkCallback plat q False ws)) (newLeafId ws))"
    by (simp add: run dir)
  moreover have "checkCallback plat (q\<lparr>settings := (settings q)\<lparr>editorFirst := e,
             paneToFocus := t, linkPanes := k\<rparr>\<rparr>) False ws = checkCallback plat q False ws"
    by (simp add: run splitActiveFile_manual_ignores)
  ultimately show ?thesis by blast
qed

theorem C10_manual_command_same_gate_and_direction_witness:
  "\<not> isPhone example_platform
   \<and> activeEditorFile (example_windowed 800 1200) = Some ''a.md''
   \<and> direction (settings (onload12 (Some example_vertical))) = Vertical
   \<and> minSize (settings (onload12 (Some example_vertical))) = 1000
   \<and> rootContainer (example_windowed 800 1200) = Some \<lparr>width = 800, height = 1200\<rparr>
   \<and> checkCallback example_platform (onload12 (Some example_vertical)) False
        (example_windowed 800 1200) = (True, example_windowed 800 1200)
   \<and> layout (splitActiveFile (onload12 (Some example_vertical)) ''a.md'' True
        (example_windowed 800 1200)) = layout (example_windowed 800 1200)
   \<and> activeEditorFile (example_windowed 1200 1100) = Some ''a.md''
   \<and> direction (settings (onload12 (Some example_horizontal))) = Horizontal
   \<and> minSize (settings (onload12 (Some example_horizontal))) = 1000
   \<and> rootContainer (example_windowed 1200 1100) = Some \<lparr>width = 1200, height = 1100\<rparr>
   \<and> activeLeaf (example_windowed 1200 1100) = Some 1
   \<and> viewType (viewState (leafData (example_windowed 1200 1100) 1)) = ''markdown''
   \<and> layout (snd (checkCallback example_platform (onload12 (Some example_horizontal)) False
        (example_windowed 1200 1100))) \<noteq> layout (example_windowed 1200 1100)
   \<and> splitDirection (leafData (snd (checkCallback example_platform
        (onload12 (Some example_horizontal)) False (example_windowed 1200 1100)))
          (newLeafId (example_windowed 1200 1100))) = Some Horizontal
   \<and> splitDirection (leafData (splitActiveFile (onload12 (Some example_horizontal)) ''a.md''
        True (example_windowed 1200 1100)) (newLeafId (example_windowed 1200 1100)))
       = Some Horizontal"
proof -
  have p: "\<not> isPhone example_platform" by (simp add: example_defs)
  have f: "activeEditorFile (example_windowed w h) = Some ''a.md''" for w h
    by (simp add: example_windowed_def example_defs)
  have s: "direction (settings (onload12 (Some example_vertical))) = Vertical"
    "minSize (settings (onload12 (Some example_vertical))) = 1000"
    "direction (settings (onload12 (Some example_horizontal))) = Horizontal"
    "minSize (settings (onload12 (Some example_horizontal))) = 1000"
    by (simp_all add: example_vertical_def example_horizontal_def orDefault_def example_defs)
  have a: "rootContainer (example_windowed w h) = Some \<lparr>width = w, height = h\<rparr>"
    "activeLeaf (example_windowed w h) = Some 1"
    "viewType (viewState (leafData (example_windowed w h) 1)) = ''markdown''" for w h
    by (simp_all add: example_windowed_def example_defs)
  show ?thesis
    using p f [of 800 1200] f [of 1200 1100] s a [of 800 1200] a [of 1200 1100]
      C10_manual_command_same_gate_and_direction [OF p f [of 800 1200],
        where q = "onload12 (Some example_vertical)"]
      C10_manual_command_same_gate_and_direction [OF p f [of 1200 1100],
        where q = "onload12 (Some example_horizontal)"]
    by (simp add: prod_eq_iff)
qed

end
